theory Spec2Isabelle
  imports Complex_Main
begin

section \<open>Data model\<close>

text \<open>
  The repository holds three variants of one page script: the first half of
  \<^verbatim>\<open>src/script.js\<close> (ripple variant, suffix \<open>_A\<close> below), its second half (message
  cycling variant, suffix \<open>_B\<close>) and \<^verbatim>\<open>src/unnamed/part_000\<close> (plain variant, suffix
  \<open>_C\<close>). The class \<^verbatim>\<open>Particle\<close> and the functions \<^verbatim>\<open>initParticles\<close>,
  \<^verbatim>\<open>createParticleBurst\<close>, \<^verbatim>\<open>animate\<close> and \<^verbatim>\<open>addParticles\<close> are the same text in all
  three and are embedded once.

  JavaScript numbers are embedded as exact reals: there is no rounding and no NaN.
  \<^verbatim>\<open>undefined\<close> is \<open>None\<close>.
\<close>

text \<open>
  The fields of \<^verbatim>\<open>Particle\<close>: \<open>px\<close>, \<open>py\<close> and \<open>psize\<close> are the source's \<^verbatim>\<open>x\<close>, \<^verbatim>\<open>y\<close> and
  \<^verbatim>\<open>size\<close>.
\<close>

record particle =
  px :: real
  py :: real
  psize :: real
  speedX :: real
  speedY :: real
  opacity :: real
  life :: real
  decay :: real

record message =
  title :: string
  subtitle :: string

text \<open>One \<^verbatim>\<open>Touch\<close> of a touch event, and the pointer or touch event itself.\<close>

record touch =
  touch_clientX :: real
  touch_clientY :: real

record event =
  clientX :: "real option"
  clientY :: "real option"
  touches :: "touch list option"

record key_event =
  key :: string
  defaultPrevented :: bool

text \<open>A circle painted by \<^verbatim>\<open>Particle.draw\<close>: the arguments of \<^verbatim>\<open>arc\<close>, the value
  assigned to \<^verbatim>\<open>globalAlpha\<close> and the fill style.\<close>

record circle =
  cx :: real
  cy :: real
  radius :: real
  alpha :: real
  fillStyle :: string

text \<open>The \<^verbatim>\<open>div\<close> appended to the body by \<^verbatim>\<open>createRipple\<close>: its style lengths in
  pixels, and \<open>rid\<close>, the identity of the element (the number of ripples made before it).\<close>

record ripple =
  rid :: nat
  left :: real
  top :: real
  rwidth :: real
  rheight :: real
  marginLeft :: real
  marginTop :: real

text \<open>The closures handed to \<^verbatim>\<open>setTimeout\<close>, with the variables they capture.\<close>

datatype callback =
    RevealEffect_A
  | RevealEffect_B "event option"
  | RevealEffect_C
  | CycleEffect message "event option"
  | RemoveActive
  | RemoveRipple ripple

text \<open>The host object \<^verbatim>\<open>window.Telegram\<close>: its \<^verbatim>\<open>WebApp\<close> property, when there is
  one, is given by the names of the methods it defines.\<close>

record telegram =
  WebApp :: "string list option"

datatype host_call =
    Expand
  | SetHeaderColor string
  | SetBackgroundColor string
  | EnableClosingConfirmation

datatype error = TypeError

text \<open>
  The module's globals, the mutable fields of \<^verbatim>\<open>CONFIG\<close> (\<open>color\<close> and
  \<open>currentMessageIndex\<close>), and the part of the browser the script reads and writes:
  the canvas and window dimensions, the class lists, styles and text of the DOM
  elements, the pending timers with their due times, the clock, the values
  \<^verbatim>\<open>Math.random\<close> returns (\<open>rnd\<close>, of which \<open>rnd_used\<close> have been drawn), the circles
  painted in the current frame, the console and the calls made to the host.
\<close>

record state =
  isRevealed :: bool
  particles :: "particle list"
  animationId :: "nat option"
  frames_requested :: nat
  color :: string
  currentMessageIndex :: nat
  canvas_width :: nat
  canvas_height :: nat
  innerWidth :: nat
  innerHeight :: nat
  scrollHeight :: nat
  instruction_classes :: "string set"
  hint_classes :: "string set"
  message_classes :: "string set"
  subtitle_classes :: "string set"
  container_classes :: "string set"
  container_cursor :: string
  message_textContent :: string
  subtitle_textContent :: string
  message_opacity :: string
  subtitle_opacity :: string
  ripples :: "ripple list"
  ripples_created :: nat
  timers :: "(nat \<times> callback) list"
  now :: nat
  rnd :: "nat \<Rightarrow> real"
  rnd_used :: nat
  frame :: "circle list"
  console :: "string list"
  Telegram :: "telegram option"
  host_calls :: "host_call list"

section \<open>Configuration\<close>

text \<open>The constant fields of \<^verbatim>\<open>CONFIG\<close>.\<close>

definition particles_count :: nat where
  "particles_count = 50"

definition maxSpeed :: real where
  "maxSpeed = 0.5"

definition particles_size :: real where
  "particles_size = 2"

definition glowOnReveal :: bool where
  "glowOnReveal = True"

definition revealDelay :: nat where
  "revealDelay = 100"

definition particleBurstCount :: nat where
  "particleBurstCount = 15"

definition ripple_size :: real where
  "ripple_size = 100"

definition messages :: "message list" where
  "messages =
     [\<lparr>title = ''Hello, World!'', subtitle = ''Welcome to something special''\<rparr>,
      \<lparr>title = ''Keep Exploring'', subtitle = ''There's more to discover''\<rparr>,
      \<lparr>title = ''Stay Curious'', subtitle = ''The journey continues''\<rparr>]"

section \<open>Particle system\<close>

definition Math_random :: "state \<Rightarrow> real \<times> state" where
  "Math_random s = (rnd s (rnd_used s), s\<lparr>rnd_used := Suc (rnd_used s)\<rparr>)"

text \<open>A number is falsy when it is \<^verbatim>\<open>undefined\<close> or zero.\<close>

fun truthy :: "real option \<Rightarrow> bool" where
  "truthy None = False"
| "truthy (Some v) = (v \<noteq> 0)"

text \<open>\<^verbatim>\<open>x || Math.random() * bound\<close>: the random number is drawn only when \<^verbatim>\<open>x\<close> is falsy.\<close>

definition or_random :: "real option \<Rightarrow> nat \<Rightarrow> state \<Rightarrow> real \<times> state" where
  "or_random v bound s =
     (case v of
        Some a \<Rightarrow> if a \<noteq> 0 then (a, s)
                  else (let (r, s') = Math_random s in (r * real bound, s'))
      | None \<Rightarrow> (let (r, s') = Math_random s in (r * real bound, s')))"

text \<open>The constructor \<^verbatim>\<open>new Particle(x, y, burst)\<close>, the fields in the order the source
  assigns them.\<close>

definition Particle :: "real option \<Rightarrow> real option \<Rightarrow> bool \<Rightarrow> state \<Rightarrow> particle \<times> state" where
  "Particle x y burst s0 =
     (let (x', s1) = or_random x (canvas_width s0) s0;
          (y', s2) = or_random y (canvas_height s1) s1;
          (size', s3) = (if burst then (let (r, s') = Math_random s2 in (r * 3 + 1, s'))
                         else (particles_size, s2));
          (r4, s4) = Math_random s3;
          (r5, s5) = Math_random s4;
          (opacity', s6) = (if burst then (1, s5)
                            else (let (r, s') = Math_random s5 in (r * 0.5 + 0.3, s')))
      in (\<lparr>px = x', py = y', psize = size',
           speedX = (r4 - 0.5) * (if burst then 2 else maxSpeed),
           speedY = (r5 - 0.5) * (if burst then 2 else maxSpeed),
           opacity = opacity',
           life = (if burst then 1 else 1),
           decay = (if burst then 0.02 else 0)\<rparr>, s6))"

text \<open>\<^verbatim>\<open>Particle.update\<close>, reading the canvas dimensions.\<close>

definition update :: "nat \<Rightarrow> nat \<Rightarrow> particle \<Rightarrow> particle" where
  "update w h p0 =
     (let p1 = p0\<lparr>px := px p0 + speedX p0\<rparr>;
          p2 = p1\<lparr>py := py p1 + speedY p1\<rparr>;
          p3 = (if decay p2 > 0
                then (let q = p2\<lparr>life := life p2 - decay p2\<rparr> in q\<lparr>opacity := life q\<rparr>)
                else p2);
          p4 = (if px p3 > real w then p3\<lparr>px := 0\<rparr> else p3);
          p5 = (if px p4 < 0 then p4\<lparr>px := real w\<rparr> else p4);
          p6 = (if py p5 > real h then p5\<lparr>py := 0\<rparr> else p5);
          p7 = (if py p6 < 0 then p6\<lparr>py := real h\<rparr> else p6)
      in p7)"

text \<open>\<^verbatim>\<open>Particle.draw\<close>: one filled circle.\<close>

definition draw :: "string \<Rightarrow> particle \<Rightarrow> circle" where
  "draw col p = \<lparr>cx = px p, cy = py p, radius = psize p, alpha = opacity p, fillStyle = col\<rparr>"

text \<open>The loop \<^verbatim>\<open>for (let i = 0; i < n; i++) particles.push(new Particle(x, y, burst))\<close>.\<close>

fun push_particles :: "nat \<Rightarrow> real option \<Rightarrow> real option \<Rightarrow> bool \<Rightarrow> state \<Rightarrow> state" where
  "push_particles 0 x y burst s = s"
| "push_particles (Suc n) x y burst s =
     (let (p, s') = Particle x y burst s
      in push_particles n x y burst (s'\<lparr>particles := particles s' @ [p]\<rparr>))"

definition initParticles :: "state \<Rightarrow> state" where
  "initParticles s = push_particles particles_count None None False (s\<lparr>particles := []\<rparr>)"

definition createParticleBurst :: "real \<Rightarrow> real \<Rightarrow> state \<Rightarrow> state" where
  "createParticleBurst x y s = push_particles particleBurstCount (Some x) (Some y) True s"

definition addParticles :: "nat \<Rightarrow> state \<Rightarrow> state" where
  "addParticles count s = push_particles count None None False s"

text \<open>\<^verbatim>\<open>particles.splice(index, 1)\<close>.\<close>

definition splice1 :: "nat \<Rightarrow> 'a list \<Rightarrow> 'a list" where
  "splice1 i xs = take i xs @ drop (Suc i) xs"

text \<open>
  The body of \<^verbatim>\<open>particles.forEach((particle, index) => ...)\<close>. \<^verbatim>\<open>forEach\<close> reads the
  length once, visits the indices \<open>0, 1, ...\<close> below it in turn, and skips an index that
  the array no longer has; \<open>n\<close> counts the indices still to visit and \<open>k\<close> is the current
  one. The particle is updated in place, drawn, and spliced out when its life is spent.
\<close>

fun forEach_from :: "nat \<Rightarrow> nat \<Rightarrow> state \<Rightarrow> state" where
  "forEach_from 0 k s = s"
| "forEach_from (Suc n) k s =
     (if k < length (particles s)
      then (let p = update (canvas_width s) (canvas_height s) (particles s ! k);
                s1 = s\<lparr>particles := (particles s)[k := p]\<rparr>;
                s2 = s1\<lparr>frame := frame s1 @ [draw (color s1) p]\<rparr>;
                s3 = (if life p \<le> 0 then s2\<lparr>particles := splice1 k (particles s2)\<rparr> else s2)
            in forEach_from n (Suc k) s3)
      else forEach_from n (Suc k) s)"

text \<open>\<^verbatim>\<open>animate\<close>: one frame. \<^verbatim>\<open>requestAnimationFrame\<close> hands out a fresh handle.\<close>

definition animate :: "state \<Rightarrow> state" where
  "animate s =
     (let s1 = s\<lparr>frame := []\<rparr>;
          s2 = forEach_from (length (particles s1)) 0 s1
      in s2\<lparr>animationId := Some (Suc (frames_requested s2)),
            frames_requested := Suc (frames_requested s2)\<rparr>)"

section \<open>Canvas setup\<close>

text \<open>Assigning a dimension of the canvas clears what was painted on it.\<close>

definition setupCanvas_A :: "state \<Rightarrow> state" where
  "setupCanvas_A s =
     s\<lparr>canvas_width := innerWidth s,
       canvas_height := max (innerHeight s) (scrollHeight s),
       frame := []\<rparr>"

definition setupCanvas :: "state \<Rightarrow> state" where
  "setupCanvas s =
     s\<lparr>canvas_width := innerWidth s, canvas_height := innerHeight s, frame := []\<rparr>"

section \<open>Timers\<close>

text \<open>\<^verbatim>\<open>setTimeout(cb, delay)\<close>: the callback becomes due \<open>delay\<close> milliseconds from now.\<close>

definition setTimeout :: "callback \<Rightarrow> nat \<Rightarrow> state \<Rightarrow> state" where
  "setTimeout cb delay s = s\<lparr>timers := timers s @ [(now s + delay, cb)]\<rparr>"

section \<open>Ripple effect (first variant)\<close>

definition createRipple :: "real \<Rightarrow> real \<Rightarrow> state \<Rightarrow> state" where
  "createRipple x y s =
     (let r = \<lparr>rid = ripples_created s, left = x, top = y,
                rwidth = ripple_size, rheight = ripple_size,
                marginLeft = - (ripple_size / 2), marginTop = - (ripple_size / 2)\<rparr>;
          s1 = s\<lparr>ripples := ripples s @ [r], ripples_created := Suc (ripples_created s)\<rparr>
      in setTimeout (RemoveRipple r) 800 s1)"

section \<open>Interaction helpers (second variant)\<close>

text \<open>\<^verbatim>\<open>getEventCoords(e)\<close> reads the canvas dimensions and the event, and writes nothing.\<close>

definition getEventCoords :: "event option \<Rightarrow> state \<Rightarrow> real \<times> real" where
  "getEventCoords e s =
     (let centre = (real (canvas_width s) / 2, real (canvas_height s) / 2)
      in case e of
           None \<Rightarrow> centre
         | Some ev \<Rightarrow>
             (case touches ev of
                Some (t # ts) \<Rightarrow> (touch_clientX t, touch_clientY t)
              | _ \<Rightarrow>
                (case clientX ev of
                   None \<Rightarrow> centre
                 | Some a \<Rightarrow> (case clientY ev of None \<Rightarrow> centre | Some b \<Rightarrow> (a, b)))))"

section \<open>Message reveal and cycling\<close>

text \<open>\<^verbatim>\<open>cycleMessage(e)\<close> of the second variant. The new message is read when the
  function runs and captured by the closure.\<close>

definition cycleMessage :: "event option \<Rightarrow> state \<Rightarrow> state" where
  "cycleMessage e s =
     (let s1 = s\<lparr>currentMessageIndex := (currentMessageIndex s + 1) mod length messages\<rparr>;
          currentMsg = messages ! currentMessageIndex s1;
          s2 = s1\<lparr>message_opacity := ''0'', subtitle_opacity := ''0''\<rparr>
      in setTimeout (CycleEffect currentMsg e) 300 s2)"

text \<open>The part of \<^verbatim>\<open>revealMessage\<close> that all variants share up to the closure they
  schedule: set the flag, hide the instruction and the hint, schedule the reveal.\<close>

definition reveal_first :: "callback \<Rightarrow> state \<Rightarrow> state" where
  "reveal_first cb s =
     (let s1 = s\<lparr>isRevealed := True\<rparr>;
          s2 = s1\<lparr>instruction_classes := insert ''hidden'' (instruction_classes s1)\<rparr>;
          s3 = s2\<lparr>hint_classes := insert ''hidden'' (hint_classes s2)\<rparr>
      in setTimeout cb revealDelay s3)"

definition revealMessage_A :: "state \<Rightarrow> state" where
  "revealMessage_A s = (if isRevealed s then s else reveal_first RevealEffect_A s)"

definition revealMessage_B :: "event option \<Rightarrow> state \<Rightarrow> state" where
  "revealMessage_B e s =
     (if isRevealed s then cycleMessage e s else reveal_first (RevealEffect_B e) s)"

definition revealMessage_C :: "state \<Rightarrow> state" where
  "revealMessage_C s = (if isRevealed s then s else reveal_first RevealEffect_C s)"

text \<open>What each closure does when its timer fires.\<close>

definition show_message :: "state \<Rightarrow> state" where
  "show_message s =
     s\<lparr>message_classes := insert ''revealed'' (message_classes s),
       subtitle_classes := insert ''revealed'' (subtitle_classes s)\<rparr>"

fun run_callback :: "callback \<Rightarrow> state \<Rightarrow> state" where
  "run_callback RevealEffect_A s =
     (let s1 = show_message s;
          s2 = (if glowOnReveal
                then createParticleBurst (real (innerWidth s1) / 2) (real (innerHeight s1) / 2) s1
                else s1)
      in s2\<lparr>container_cursor := ''default''\<rparr>)"
| "run_callback (RevealEffect_B e) s =
     (let s1 = show_message s
      in if glowOnReveal
         then (let (x, y) = getEventCoords e s1 in createParticleBurst x y s1)
         else s1)"
| "run_callback RevealEffect_C s =
     (let s1 = show_message s
      in if glowOnReveal
         then createParticleBurst (real (canvas_width s1) / 2) (real (canvas_height s1) / 2) s1
         else s1)"
| "run_callback (CycleEffect currentMsg e) s =
     (let s1 = s\<lparr>message_textContent := title currentMsg,
                 subtitle_textContent := subtitle currentMsg,
                 message_opacity := ''1'', subtitle_opacity := ''1''\<rparr>;
          (x, y) = getEventCoords e s1
      in createParticleBurst x y s1)"
| "run_callback RemoveActive s =
     s\<lparr>container_classes := container_classes s - {''active''}\<rparr>"
| "run_callback (RemoveRipple r) s =
     s\<lparr>ripples := filter (\<lambda>q. rid q \<noteq> rid r) (ripples s)\<rparr>"

text \<open>
  The passing of \<open>ms\<close> milliseconds: the timers that have become due fire, the earlier
  first and the earlier set first among those due together. No closure of this program
  sets a timer.
\<close>

definition elapse :: "nat \<Rightarrow> state \<Rightarrow> state" where
  "elapse ms s =
     (let t = now s + ms;
          due = filter (\<lambda>(d, cb). d \<le> t) (timers s);
          rest = filter (\<lambda>(d, cb). \<not> d \<le> t) (timers s);
          s1 = s\<lparr>now := t, timers := rest\<rparr>
      in fold (\<lambda>(d, cb). run_callback cb) (sort_key fst due) s1)"

section \<open>Event handlers\<close>

text \<open>\<^verbatim>\<open>container.classList.add('active')\<close> and the timer that removes the class.\<close>

definition pulse_active :: "state \<Rightarrow> state" where
  "pulse_active s =
     setTimeout RemoveActive 100 (s\<lparr>container_classes := insert ''active'' (container_classes s)\<rparr>)"

text \<open>\<^verbatim>\<open>e.clientX || (e.touches && e.touches[0] ? e.touches[0].clientX : fallback)\<close>, and
  the same for \<^verbatim>\<open>clientY\<close>.\<close>

definition coord_or :: "real option \<Rightarrow> touch list option \<Rightarrow> (touch \<Rightarrow> real) \<Rightarrow> real \<Rightarrow> real" where
  "coord_or c ts sel fallback =
     (if truthy c then the c
      else (case ts of Some (t # rest) \<Rightarrow> sel t | _ \<Rightarrow> fallback))"

definition handleInteraction_A :: "event \<Rightarrow> state \<Rightarrow> state" where
  "handleInteraction_A e s =
     (let x = coord_or (clientX e) (touches e) touch_clientX (real (innerWidth s) / 2);
          y = coord_or (clientY e) (touches e) touch_clientY (real (innerHeight s) / 2);
          s1 = createRipple x y s;
          s2 = createParticleBurst x y s1
      in if \<not> isRevealed s2 then pulse_active (revealMessage_A s2) else s2)"

definition handleInteraction_B :: "event \<Rightarrow> state \<Rightarrow> state" where
  "handleInteraction_B e s = pulse_active (revealMessage_B (Some e) s)"

definition handleInteraction_C :: "event \<Rightarrow> state \<Rightarrow> state" where
  "handleInteraction_C e s =
     (let s1 = pulse_active (revealMessage_C s)
      in createParticleBurst (real (canvas_width s1) / 2) (real (canvas_height s1) / 2) s1)"

text \<open>\<^verbatim>\<open>handleKeyPress(e)\<close>: the event comes back with \<^verbatim>\<open>preventDefault\<close> recorded.\<close>

definition handleKeyPress_A :: "key_event \<Rightarrow> state \<Rightarrow> key_event \<times> state" where
  "handleKeyPress_A e s =
     (if key e = '' '' \<or> key e = ''Enter''
      then (e\<lparr>defaultPrevented := True\<rparr>, revealMessage_A s)
      else (e, s))"

definition handleKeyPress_B :: "key_event \<Rightarrow> state \<Rightarrow> key_event \<times> state" where
  "handleKeyPress_B e s =
     (if key e = '' '' \<or> key e = ''Enter''
      then (e\<lparr>defaultPrevented := True\<rparr>, revealMessage_B None s)
      else (e, s))"

definition handleKeyPress_C :: "key_event \<Rightarrow> state \<Rightarrow> key_event \<times> state" where
  "handleKeyPress_C e s =
     (if key e = '' '' \<or> key e = ''Enter''
      then (e\<lparr>defaultPrevented := True\<rparr>, revealMessage_C s)
      else (e, s))"

definition handleResize_A :: "state \<Rightarrow> state" where
  "handleResize_A s = setupCanvas_A s"

definition handleResize :: "state \<Rightarrow> state" where
  "handleResize s = initParticles (setupCanvas s)"

definition handleScroll :: "state \<Rightarrow> state" where
  "handleScroll s =
     (let newHeight = max (innerHeight s) (scrollHeight s)
      in if canvas_height s \<noteq> newHeight then s\<lparr>canvas_height := newHeight, frame := []\<rparr> else s)"

section \<open>Host integration\<close>

text \<open>Calling a method the host object does not define raises \<^verbatim>\<open>TypeError\<close>.\<close>

definition host_method :: "string list \<Rightarrow> string \<Rightarrow> host_call \<Rightarrow> state \<Rightarrow> error + state" where
  "host_method tg name c s =
     (if name \<in> set tg then Inr (s\<lparr>host_calls := host_calls s @ [c]\<rparr>) else Inl TypeError)"

definition and_then :: "error + state \<Rightarrow> (state \<Rightarrow> error + state) \<Rightarrow> error + state" where
  "and_then r f = (case r of Inl e \<Rightarrow> Inl e | Inr s \<Rightarrow> f s)"

definition initTelegramWebApp :: "state \<Rightarrow> error + state" where
  "initTelegramWebApp s =
     (case Telegram s of
        None \<Rightarrow> Inr s
      | Some w \<Rightarrow>
          (case WebApp w of
             None \<Rightarrow> Inr s
           | Some tg \<Rightarrow>
               and_then (host_method tg ''expand'' Expand s) (\<lambda>s1.
               and_then (host_method tg ''setHeaderColor'' (SetHeaderColor ''#0f0f0f'') s1) (\<lambda>s2.
               and_then (host_method tg ''setBackgroundColor'' (SetBackgroundColor ''#0f0f0f'') s2) (\<lambda>s3.
               and_then (host_method tg ''enableClosingConfirmation'' EnableClosingConfirmation s3) (\<lambda>s4.
               Inr (s4\<lparr>console := console s4 @ [''Telegram WebApp initialized'']\<rparr>)))))))"

section \<open>Utility functions\<close>

definition setMessage :: "string \<Rightarrow> string \<Rightarrow> state \<Rightarrow> state" where
  "setMessage t st s = s\<lparr>message_textContent := t, subtitle_textContent := st\<rparr>"

definition setParticleColor :: "string \<Rightarrow> state \<Rightarrow> state" where
  "setParticleColor c s = s\<lparr>color := c\<rparr>"

definition triggerReveal :: "state \<Rightarrow> state" where
  "triggerReveal s = (if \<not> isRevealed s then revealMessage_A s else s)"

section \<open>The page as a state machine\<close>

text \<open>
  What can happen to a running page: a click or touch on a listening element, a key
  press, a resize of the window to new dimensions, a scroll that leaves the document
  with a new scrollable height, the passing of time, a display frame, and a call of one
  of the utility functions. Each variant reacts with the listeners its \<^verbatim>\<open>init\<close>
  installs; an input a variant has no listener or function for changes only the
  browser's own part of the state.
\<close>

datatype input =
    Pointer event
  | KeyPress key_event
  | Resize nat nat
  | Scroll nat
  | Elapse nat
  | Frame
  | SetMessage string string
  | SetParticleColor string
  | AddParticles nat
  | TriggerReveal

fun step_A :: "input \<Rightarrow> state \<Rightarrow> state" where
  "step_A (Pointer e) s = handleInteraction_A e s"
| "step_A (KeyPress e) s = snd (handleKeyPress_A e s)"
| "step_A (Resize w h) s = handleResize_A (s\<lparr>innerWidth := w, innerHeight := h\<rparr>)"
| "step_A (Scroll h) s = handleScroll (s\<lparr>scrollHeight := h\<rparr>)"
| "step_A (Elapse ms) s = elapse ms s"
| "step_A Frame s = animate s"
| "step_A (SetMessage t st) s = s"
| "step_A (SetParticleColor c) s = setParticleColor c s"
| "step_A (AddParticles n) s = addParticles n s"
| "step_A TriggerReveal s = triggerReveal s"

fun step_B :: "input \<Rightarrow> state \<Rightarrow> state" where
  "step_B (Pointer e) s = handleInteraction_B e s"
| "step_B (KeyPress e) s = snd (handleKeyPress_B e s)"
| "step_B (Resize w h) s = handleResize (s\<lparr>innerWidth := w, innerHeight := h\<rparr>)"
| "step_B (Scroll h) s = s\<lparr>scrollHeight := h\<rparr>"
| "step_B (Elapse ms) s = elapse ms s"
| "step_B Frame s = animate s"
| "step_B (SetMessage t st) s = setMessage t st s"
| "step_B (SetParticleColor c) s = setParticleColor c s"
| "step_B (AddParticles n) s = addParticles n s"
| "step_B TriggerReveal s = s"

fun step_C :: "input \<Rightarrow> state \<Rightarrow> state" where
  "step_C (Pointer e) s = handleInteraction_C e s"
| "step_C (KeyPress e) s = snd (handleKeyPress_C e s)"
| "step_C (Resize w h) s = handleResize (s\<lparr>innerWidth := w, innerHeight := h\<rparr>)"
| "step_C (Scroll h) s = s\<lparr>scrollHeight := h\<rparr>"
| "step_C (Elapse ms) s = elapse ms s"
| "step_C Frame s = animate s"
| "step_C (SetMessage t st) s = setMessage t st s"
| "step_C (SetParticleColor c) s = setParticleColor c s"
| "step_C (AddParticles n) s = addParticles n s"
| "step_C TriggerReveal s = s"

text \<open>A sequence of inputs, the first input first.\<close>

definition run :: "(input \<Rightarrow> state \<Rightarrow> state) \<Rightarrow> input list \<Rightarrow> state \<Rightarrow> state" where
  "run step is s = fold step is s"

section \<open>Start of the page\<close>

text \<open>\<^verbatim>\<open>init\<close> of each variant: size the canvas, make the ambient particles, paint the
  first frame. The listeners it installs are the cases of the step functions above.\<close>

definition init_A :: "state \<Rightarrow> state" where
  "init_A s =
     (let s1 = animate (initParticles (setupCanvas_A s))
      in s1\<lparr>console := console s1 @ [''Interactive message page initialized'',
                                      ''Click/tap anywhere to reveal the message'']\<rparr>)"

definition init_B :: "state \<Rightarrow> state" where
  "init_B s =
     (let s1 = animate (initParticles (setupCanvas s))
      in s1\<lparr>console := console s1 @ [''Interactive message page initialized'',
                                      ''Click/tap anywhere to reveal the message'']\<rparr>)"

definition init_C :: "state \<Rightarrow> state" where
  "init_C s = animate (initParticles (setupCanvas s))"

text \<open>
  A page as the script finds it when it is loaded into a window of \<open>w\<close> by \<open>h\<close> pixels:
  the globals as the script declares them, a canvas of the default 300 by 150 pixels,
  elements without classes, inline styles or text, no timers, no host object, and
  \<open>r\<close> for the numbers \<^verbatim>\<open>Math.random\<close> will return. It serves as the concrete state of
  the worked examples.
\<close>

definition page :: "nat \<Rightarrow> nat \<Rightarrow> (nat \<Rightarrow> real) \<Rightarrow> state" where
  "page w h r =
     \<lparr>isRevealed = False, particles = [], animationId = None, frames_requested = 0,
      color = ''rgba(99, 179, 237, 0.6)'', currentMessageIndex = 0,
      canvas_width = 300, canvas_height = 150,
      innerWidth = w, innerHeight = h, scrollHeight = h,
      instruction_classes = {}, hint_classes = {}, message_classes = {},
      subtitle_classes = {}, container_classes = {}, container_cursor = [],
      message_textContent = [], subtitle_textContent = [],
      message_opacity = [], subtitle_opacity = [],
      ripples = [], ripples_created = 0, timers = [], now = 0,
      rnd = r, rnd_used = 0, frame = [], console = [],
      Telegram = None, host_calls = []\<rparr>"

text \<open>The random source that always returns one half: every speed component is zero.\<close>

definition half :: "nat \<Rightarrow> real" where
  "half i = 1 / 2"

section \<open>One pass over the particles, as a function on the list\<close>

text \<open>
  What the \<^verbatim>\<open>forEach\<close> of \<^verbatim>\<open>animate\<close> does to the particle list, told along the list:
  a particle that stays alive is replaced by its update; a particle whose life is spent
  is dropped, and the particle behind it, which the splice moves to the index just
  visited, is passed over without being updated.
\<close>

fun sweep :: "nat \<Rightarrow> nat \<Rightarrow> particle list \<Rightarrow> particle list" where
  "sweep w h [] = []"
| "sweep w h (p # ps) =
     (if life (update w h p) \<le> 0
      then (case ps of [] \<Rightarrow> [] | q # qs \<Rightarrow> q # sweep w h qs)
      else update w h p # sweep w h ps)"

text \<open>A position inside the canvas, both edges included.\<close>

definition on_canvas :: "nat \<Rightarrow> nat \<Rightarrow> particle \<Rightarrow> bool" where
  "on_canvas w h p \<longleftrightarrow> 0 \<le> px p \<and> px p \<le> real w \<and> 0 \<le> py p \<and> py p \<le> real h"

section \<open>A worked scene\<close>

text \<open>
  The second variant started in a window of 800 by 600 pixels, with \<^verbatim>\<open>Math.random\<close>
  returning one half throughout, and then a burst at the point (400, 300): 50 ambient
  particles followed by 15 burst particles, all at rest.
\<close>

definition burst_scene :: state where
  "burst_scene = createParticleBurst 400 300 (init_B (page 800 600 half))"

text \<open>The ambient particle of that scene, and its burst particle after \<open>j\<close> updates.\<close>

definition ambient0 :: particle where
  "ambient0 = \<lparr>px = 400, py = 300, psize = 2, speedX = 0, speedY = 0,
                opacity = 0.55, life = 1, decay = 0\<rparr>"

definition burst_aged :: "nat \<Rightarrow> particle" where
  "burst_aged j = \<lparr>px = 400, py = 300, psize = 2.5, speedX = 0, speedY = 0,
                    opacity = 1 - real j * 0.02, life = 1 - real j * 0.02, decay = 0.02\<rparr>"

text \<open>What the specification asks of a freshly made ambient particle on a canvas of
  \<open>w\<close> by \<open>h\<close> pixels.\<close>
definition ambient_fresh :: "nat \<Rightarrow> nat \<Rightarrow> particle \<Rightarrow> bool" where
  "ambient_fresh w h p \<longleftrightarrow>
     0 \<le> px p \<and> px p < real w \<and> 0 \<le> py p \<and> py p < real h \<and>
     psize p = particles_size \<and>
     - (maxSpeed / 2) \<le> speedX p \<and> speedX p \<le> maxSpeed / 2 \<and>
     - (maxSpeed / 2) \<le> speedY p \<and> speedY p \<le> maxSpeed / 2 \<and>
     0.3 \<le> opacity p \<and> opacity p \<le> 0.8 \<and> life p = 1 \<and> decay p = 0"

text \<open>What the specification asks of a freshly made burst particle with origin
  \<open>(x, y)\<close>.\<close>

definition burst_fresh :: "real \<Rightarrow> real \<Rightarrow> particle \<Rightarrow> bool" where
  "burst_fresh x y p \<longleftrightarrow>
     px p = x \<and> py p = y \<and> 1 \<le> psize p \<and> psize p \<le> 4 \<and>
     - 1 \<le> speedX p \<and> speedX p \<le> 1 \<and> - 1 \<le> speedY p \<and> speedY p \<le> 1 \<and>
     opacity p = 1 \<and> life p = 1 \<and> decay p = 0.02"

section \<open>Particle.update: wrap-around\<close>

lemma update_px_cases:
  "px (update w h p) =
     (if px p + speedX p > real w then 0
      else if px p + speedX p < 0 then real w else px p + speedX p)"
  by (simp add: update_def Let_def)

lemma update_py_cases:
  "py (update w h p) =
     (if py p + speedY p > real h then 0
      else if py p + speedY p < 0 then real h else py p + speedY p)"
  by (simp add: update_def Let_def)

lemma update_on_canvas: "on_canvas w h (update w h p)"
  by (simp add: on_canvas_def update_px_cases update_py_cases)

text \<open>
  Claim C1, as the specification states it: after an update both coordinates lie in the
  half-open ranges \<open>[0, width)\<close> and \<open>[0, height)\<close>. It fails where a coordinate drops
  below zero: the particle at \<open>x = 0\<close> moving left by one pixel on a canvas 800 wide is
  put at \<open>x = 800\<close>, which is not below 800.
\<close>

theorem C1_half_open_counterexample:
  "\<not> px (update 800 600 \<lparr>px = 0, py = 300, psize = 2, speedX = - 1, speedY = 0,
                          opacity = 1, life = 1, decay = 0\<rparr>) < 800"
  by (simp add: update_def Let_def)

text \<open>
  Claim C1, amended: after \<^verbatim>\<open>Particle.update\<close> both coordinates lie in the closed ranges
  \<open>[0, width]\<close> and \<open>[0, height]\<close>, for every particle, ambient or burst. On each axis
  independently, a coordinate that the move takes above the upper bound becomes 0, one
  that the move takes below 0 becomes the upper bound, and any other is the moved
  coordinate.
\<close>

theorem C1_update_wraps:
  "0 \<le> px (update w h p) \<and> px (update w h p) \<le> real w \<and>
   0 \<le> py (update w h p) \<and> py (update w h p) \<le> real h \<and>
   (px p + speedX p > real w \<longrightarrow> px (update w h p) = 0) \<and>
   (px p + speedX p < 0 \<longrightarrow> px (update w h p) = real w) \<and>
   (0 \<le> px p + speedX p \<and> px p + speedX p \<le> real w \<longrightarrow> px (update w h p) = px p + speedX p) \<and>
   (py p + speedY p > real h \<longrightarrow> py (update w h p) = 0) \<and>
   (py p + speedY p < 0 \<longrightarrow> py (update w h p) = real h) \<and>
   (0 \<le> py p + speedY p \<and> py p + speedY p \<le> real h \<longrightarrow> py (update w h p) = py p + speedY p)"
  by (simp add: update_px_cases update_py_cases)

text \<open>The amended claim at work: a particle leaving an 800 by 600 canvas through the
  right edge and through the top edge in the same move.\<close>

theorem C1_update_wraps_witness:
  "px \<lparr>px = 799, py = 1, psize = 2, speedX = 2, speedY = - 3,
       opacity = 1, life = 1, decay = 0\<rparr> + 2 > real 800 \<and>
   px (update 800 600 \<lparr>px = 799, py = 1, psize = 2, speedX = 2, speedY = - 3,
                        opacity = 1, life = 1, decay = 0\<rparr>) = 0 \<and>
   py (update 800 600 \<lparr>px = 799, py = 1, psize = 2, speedX = 2, speedY = - 3,
                        opacity = 1, life = 1, decay = 0\<rparr>) = 600"
  using C1_update_wraps [of 800 600 "\<lparr>px = 799, py = 1, psize = 2, speedX = 2, speedY = - 3,
                                     opacity = 1, life = 1, decay = 0\<rparr>"]
  by simp

section \<open>Key presses\<close>

text \<open>
  Claim C10: for a key press whose key is neither the space character nor \<open>Enter\<close>, the
  keyboard handler of every variant returns the event and the whole program state as
  they were: the flag, the particles, the message index and all classes and styles.
\<close>

theorem C10_other_keys_change_nothing:
  assumes "key e \<noteq> '' ''" and "key e \<noteq> ''Enter''"
  shows "handleKeyPress_A e s = (e, s) \<and> handleKeyPress_B e s = (e, s) \<and>
         handleKeyPress_C e s = (e, s)"
  using assms by (simp add: handleKeyPress_A_def handleKeyPress_B_def handleKeyPress_C_def)

theorem C10_other_keys_change_nothing_witness:
  "key \<lparr>key = ''a'', defaultPrevented = False\<rparr> \<noteq> '' '' \<and>
   key \<lparr>key = ''a'', defaultPrevented = False\<rparr> \<noteq> ''Enter'' \<and>
   handleKeyPress_A \<lparr>key = ''a'', defaultPrevented = False\<rparr> (page 800 600 half)
     = (\<lparr>key = ''a'', defaultPrevented = False\<rparr>, page 800 600 half) \<and>
   handleKeyPress_C \<lparr>key = ''a'', defaultPrevented = False\<rparr> (page 800 600 half)
     = (\<lparr>key = ''a'', defaultPrevented = False\<rparr>, page 800 600 half)"
  using C10_other_keys_change_nothing
          [of "\<lparr>key = ''a'', defaultPrevented = False\<rparr>" "page 800 600 half"]
  by simp

section \<open>What the helpers leave alone\<close>

lemma Particle_frame: "\<exists>k. snd (Particle x y b s) = s\<lparr>rnd_used := k\<rparr>"
  by (cases x; cases y; cases b) (auto simp: Particle_def or_random_def Math_random_def Let_def split: prod.splits if_splits)

lemma push_frame: "\<exists>ps k. push_particles n x y b s = s\<lparr>particles := ps, rnd_used := k\<rparr>"
proof (induction n arbitrary: s)
  case 0
  have "s = s\<lparr>particles := particles s, rnd_used := rnd_used s\<rparr>" by simp
  then show ?case by (metis push_particles.simps(1))
next
  case (Suc n)
  obtain p s' where ps: "Particle x y b s = (p, s')" by (cases "Particle x y b s")
  obtain k where k: "s' = s\<lparr>rnd_used := k\<rparr>" using Particle_frame[of x y b s] ps by auto
  obtain ps' k' where "push_particles n x y b (s'\<lparr>particles := particles s' @ [p]\<rparr>) = (s'\<lparr>particles := particles s' @ [p]\<rparr>)\<lparr>particles := ps', rnd_used := k'\<rparr>"
    using Suc.IH by blast
  then have "push_particles (Suc n) x y b s = s\<lparr>particles := ps', rnd_used := k'\<rparr>"
    using ps k by simp
  then show ?case by blast
qed

lemma push_keeps:
  assumes "\<And>ps k. f (s\<lparr>particles := ps, rnd_used := k\<rparr>) = f s"
  shows "f (push_particles n x y b s) = f s"
proof -
  obtain ps k where "push_particles n x y b s = s\<lparr>particles := ps, rnd_used := k\<rparr>"
    using push_frame by blast
  then show ?thesis using assms by simp
qed

lemma push_fields:
  "isRevealed (push_particles n x y b s) = isRevealed s"
  "currentMessageIndex (push_particles n x y b s) = currentMessageIndex s"
  "canvas_width (push_particles n x y b s) = canvas_width s"
  "canvas_height (push_particles n x y b s) = canvas_height s"
  "innerWidth (push_particles n x y b s) = innerWidth s"
  "innerHeight (push_particles n x y b s) = innerHeight s"
  "instruction_classes (push_particles n x y b s) = instruction_classes s"
  "hint_classes (push_particles n x y b s) = hint_classes s"
  "message_textContent (push_particles n x y b s) = message_textContent s"
  "subtitle_textContent (push_particles n x y b s) = subtitle_textContent s"
  "message_opacity (push_particles n x y b s) = message_opacity s"
  "subtitle_opacity (push_particles n x y b s) = subtitle_opacity s"
  "ripples (push_particles n x y b s) = ripples s"
  "timers (push_particles n x y b s) = timers s"
  "rnd (push_particles n x y b s) = rnd s"
  by (rule push_keeps, simp)+

section \<open>The animation pass\<close>

lemma forEach_step:
  "k < length (particles s) \<Longrightarrow>
   forEach_from (Suc n) k s =
     forEach_from n (Suc k)
       (s\<lparr>particles :=
            (if life (update (canvas_width s) (canvas_height s) (particles s ! k)) \<le> 0
             then splice1 k ((particles s)[k := update (canvas_width s) (canvas_height s) (particles s ! k)])
             else (particles s)[k := update (canvas_width s) (canvas_height s) (particles s ! k)]),
          frame := frame s @ [draw (color s) (update (canvas_width s) (canvas_height s) (particles s ! k))]\<rparr>)"
  by (cases s) (simp add: Let_def)

lemma forEach_skip:
  "\<not> k < length (particles s) \<Longrightarrow> forEach_from (Suc n) k s = forEach_from n (Suc k) s"
  by simp

lemma forEach_frame: "\<exists>ps fr. forEach_from n k s = s\<lparr>particles := ps, frame := fr\<rparr>"
proof (induction n arbitrary: k s)
  case 0
  have "s = s\<lparr>particles := particles s, frame := frame s\<rparr>" by simp
  then show ?case by (metis forEach_from.simps(1))
next
  case (Suc n)
  show ?case
  proof (cases "k < length (particles s)")
    case False
    then show ?thesis using Suc.IH[of "Suc k" s] by simp
  next
    case True
    obtain ps0 fr0 where step: "forEach_from (Suc n) k s = forEach_from n (Suc k) (s\<lparr>particles := ps0, frame := fr0\<rparr>)"
      using forEach_step[OF True] by blast
    obtain ps fr where "forEach_from n (Suc k) (s\<lparr>particles := ps0, frame := fr0\<rparr>) = (s\<lparr>particles := ps0, frame := fr0\<rparr>)\<lparr>particles := ps, frame := fr\<rparr>"
      using Suc.IH by blast
    then have "forEach_from (Suc n) k s = s\<lparr>particles := ps, frame := fr\<rparr>"
      using step by simp
    then show ?thesis by blast
  qed
qed

lemma forEach_past_end:
  "length (particles s) \<le> k \<Longrightarrow> forEach_from n k s = s"
  by (induction n arbitrary: k) auto

lemma splice1_append: "splice1 (length xs) (xs @ y # ys) = xs @ ys"
  by (simp add: splice1_def)

lemma forEach_sweep:
  "particles s = xs @ todo \<Longrightarrow> k = length xs \<Longrightarrow> length todo \<le> n \<Longrightarrow>
   particles (forEach_from n k s) = xs @ sweep (canvas_width s) (canvas_height s) todo"
proof (induction n arbitrary: k s xs todo)
  case 0
  then show ?case by simp
next
  case (Suc n)
  show ?case
  proof (cases todo)
    case Nil
    then show ?thesis using Suc.prems by (simp add: forEach_past_end)
  next
    case (Cons p0 rest)
    let ?w = "canvas_width s" and ?h = "canvas_height s"
    let ?p = "update ?w ?h p0"
    have k: "k < length (particles s)" using Suc.prems Cons by simp
    have nth: "particles s ! k = p0" using Suc.prems Cons by simp
    have upd: "(particles s)[k := ?p] = xs @ ?p # rest" using Suc.prems Cons by simp
    show ?thesis
    proof (cases "life ?p \<le> 0")
      case False
      let ?s' = "s\<lparr>particles := (xs @ [?p]) @ rest, frame := frame s @ [draw (color s) ?p]\<rparr>"
      have "forEach_from (Suc n) k s = forEach_from n (Suc k) ?s'"
        using forEach_step[OF k, of n] False nth upd by simp
      moreover have "particles (forEach_from n (Suc k) ?s') = (xs @ [?p]) @ sweep (canvas_width ?s') (canvas_height ?s') rest"
        using Suc.prems Cons by (intro Suc.IH) auto
      ultimately show ?thesis using Cons False by simp
    next
      case True
      let ?s' = "s\<lparr>particles := xs @ rest, frame := frame s @ [draw (color s) ?p]\<rparr>"
      have step: "forEach_from (Suc n) k s = forEach_from n (Suc k) ?s'"
        using forEach_step[OF k, of n] True nth upd Suc.prems by (simp add: splice1_append)
      show ?thesis
      proof (cases rest)
        case Nil
        then show ?thesis using step Cons True Suc.prems by (simp add: forEach_past_end)
      next
        case (Cons q qs)
        have "particles (forEach_from n (Suc k) ?s') = (xs @ [q]) @ sweep (canvas_width ?s') (canvas_height ?s') qs"
          using Suc.prems \<open>todo = p0 # rest\<close> Cons by (intro Suc.IH) auto
        then show ?thesis using step Cons \<open>todo = p0 # rest\<close> True by simp
      qed
    qed
  qed
qed

lemma animate_particles:
  "particles (animate s) = sweep (canvas_width s) (canvas_height s) (particles s)"
  using forEach_sweep[of "s\<lparr>frame := []\<rparr>" "[]" "particles s" 0 "length (particles s)"]
  by (simp add: animate_def Let_def)

lemma animate_frame:
  "\<exists>ps fr a n. animate s = s\<lparr>particles := ps, animationId := a, frames_requested := n, frame := fr\<rparr>"
proof -
  obtain ps fr where "forEach_from (length (particles s)) 0 (s\<lparr>frame := []\<rparr>) = (s\<lparr>frame := []\<rparr>)\<lparr>particles := ps, frame := fr\<rparr>"
    using forEach_frame by blast
  then have "animate s = s\<lparr>particles := ps, animationId := Some (Suc (frames_requested s)),
      frames_requested := Suc (frames_requested s), frame := fr\<rparr>"
    by (simp add: animate_def Let_def)
  then show ?thesis by blast
qed

lemma animate_keeps:
  assumes "\<And>ps fr a n. f (s\<lparr>particles := ps, animationId := a, frames_requested := n, frame := fr\<rparr>) = f s"
  shows "f (animate s) = f s"
proof -
  obtain ps fr a n where "animate s = s\<lparr>particles := ps, animationId := a, frames_requested := n, frame := fr\<rparr>"
    using animate_frame by blast
  then show ?thesis using assms by simp
qed

lemma animate_fields:
  "isRevealed (animate s) = isRevealed s"
  "canvas_width (animate s) = canvas_width s"
  "canvas_height (animate s) = canvas_height s"
  "rnd (animate s) = rnd s"
  by (rule animate_keeps, simp)+

lemma sweep_keep:
  "\<forall>p\<in>set xs. 0 < life (update w h p) \<Longrightarrow> sweep w h (xs @ ys) = map (update w h) xs @ sweep w h ys"
  by (induction xs) auto

lemma sweep_replicate_dead:
  "life (update w h b) \<le> 0 \<Longrightarrow> sweep w h (replicate n b) = replicate (n div 2) b"
proof (induction n rule: less_induct)
  case (less n)
  show ?case
  proof (cases n)
    case 0
    then show ?thesis by simp
  next
    case (Suc m)
    show ?thesis
    proof (cases m)
      case 0
      then show ?thesis using Suc less.prems by simp
    next
      case (Suc j)
      have "sweep w h (replicate j b) = replicate (j div 2) b"
        using less.IH[of j] less.prems Suc \<open>n = Suc m\<close> by simp
      then show ?thesis using Suc \<open>n = Suc m\<close> less.prems by simp
    qed
  qed
qed

lemma sweep_replicate_alive:
  "0 < life (update w h b) \<Longrightarrow> sweep w h (replicate n b) = replicate n (update w h b)"
  by (induction n) auto

lemma sweep_ambient_count:
  "length (filter (\<lambda>p. decay p = 0 \<and> 0 < life p) (sweep w h ps)) =
   length (filter (\<lambda>p. decay p = 0 \<and> 0 < life p) ps)"
proof (induction w h ps rule: sweep.induct)
  case (1 w h)
  then show ?case by simp
next
  case (2 w h p ps)
  have u: "decay (update w h p) = decay p" by (simp add: update_def Let_def)
  have l: "decay p = 0 \<Longrightarrow> life (update w h p) = life p" by (simp add: update_def Let_def)
  have d: "life (update w h p) \<le> 0 \<Longrightarrow> \<not> (decay p = 0 \<and> 0 < life p)" using l by auto
  show ?case
  proof (cases "life (update w h p) \<le> 0")
    case True
    then show ?thesis using 2 d by (cases ps) auto
  next
    case False
    then show ?thesis using 2 u l
      by (auto simp: update_def Let_def)
  qed
qed

section \<open>The worked scene, frame by frame\<close>

lemma Particle_half_ambient:
  "rnd s = half \<Longrightarrow> canvas_width s = 800 \<Longrightarrow> canvas_height s = 600 \<Longrightarrow>
   Particle None None False s = (ambient0, s\<lparr>rnd_used := rnd_used s + 5\<rparr>)"
  by (simp add: Particle_def or_random_def Math_random_def half_def ambient0_def maxSpeed_def particles_size_def)

lemma Particle_half_burst:
  "rnd s = half \<Longrightarrow>
   Particle (Some 400) (Some 300) True s = (burst_aged 0, s\<lparr>rnd_used := rnd_used s + 3\<rparr>)"
  by (simp add: Particle_def or_random_def Math_random_def half_def burst_aged_def)

lemma push_half_ambient:
  "rnd s = half \<Longrightarrow> canvas_width s = 800 \<Longrightarrow> canvas_height s = 600 \<Longrightarrow>
   particles (push_particles n None None False s) = particles s @ replicate n ambient0"
proof (induction n arbitrary: s)
  case 0
  then show ?case by simp
next
  case (Suc n)
  then show ?case
    by (simp add: Particle_half_ambient replicate_append_same)
qed

lemma push_half_burst:
  "rnd s = half \<Longrightarrow>
   particles (push_particles n (Some 400) (Some 300) True s) = particles s @ replicate n (burst_aged 0)"
proof (induction n arbitrary: s)
  case 0
  then show ?case by simp
next
  case (Suc n)
  then show ?case
    by (simp add: Particle_half_burst replicate_append_same)
qed

lemma life_ambient0: "life ambient0 = 1"
  by (simp add: ambient0_def)

lemma update_ambient0: "update 800 600 ambient0 = ambient0"
  by (simp add: update_def ambient0_def)

lemma update_burst_aged: "update 800 600 (burst_aged j) = burst_aged (Suc j)"
  by (simp add: update_def burst_aged_def add_divide_distrib)

lemma life_burst_aged: "life (burst_aged j) = 1 - real j / 50"
  by (simp add: burst_aged_def)

lemma init_B_particles: 
  "particles (init_B (page 800 600 half)) = replicate 50 ambient0"
proof -
  let ?s = "setupCanvas (page 800 600 half)"
  have "particles (initParticles ?s) = replicate 50 ambient0"
    unfolding initParticles_def particles_count_def
    by (subst push_half_ambient) (simp_all add: setupCanvas_def page_def)
  moreover have "canvas_width (initParticles ?s) = 800 \<and> canvas_height (initParticles ?s) = 600"
    by (simp add: initParticles_def push_fields setupCanvas_def page_def)
  ultimately have "particles (animate (initParticles ?s)) = replicate 50 ambient0"
    by (simp add: animate_particles sweep_replicate_alive update_ambient0 life_ambient0)
  then show ?thesis by (simp add: init_B_def Let_def)
qed


lemma burst_scene_particles:
  "particles burst_scene = replicate 50 ambient0 @ replicate 15 (burst_aged 0)"
proof -
  have "rnd (init_B (page 800 600 half)) = half"
    by (simp add: init_B_def Let_def animate_fields initParticles_def push_fields setupCanvas_def page_def)
  then show ?thesis
    by (simp add: burst_scene_def createParticleBurst_def particleBurstCount_def push_half_burst init_B_particles)
qed

lemma burst_scene_canvas: "canvas_width burst_scene = 800 \<and> canvas_height burst_scene = 600"
  by (simp add: burst_scene_def createParticleBurst_def init_B_def Let_def animate_fields
        initParticles_def push_fields setupCanvas_def page_def)

lemma frames_alive:
  "j \<le> 49 \<Longrightarrow>
   particles ((animate ^^ j) burst_scene) = replicate 50 ambient0 @ replicate 15 (burst_aged j) \<and>
   canvas_width ((animate ^^ j) burst_scene) = 800 \<and> canvas_height ((animate ^^ j) burst_scene) = 600"
proof (induction j)
  case 0
  then show ?case by (simp add: burst_scene_particles burst_scene_canvas)
next
  case (Suc j)
  then have IH: "particles ((animate ^^ j) burst_scene) = replicate 50 ambient0 @ replicate 15 (burst_aged j)"
    "canvas_width ((animate ^^ j) burst_scene) = 800" "canvas_height ((animate ^^ j) burst_scene) = 600"
    by simp_all
  have alive: "0 < life (update 800 600 (burst_aged j))"
    using Suc.prems by (simp add: update_burst_aged life_burst_aged)
  have "sweep 800 600 (replicate 50 ambient0 @ replicate 15 (burst_aged j))
          = replicate 50 ambient0 @ replicate 15 (burst_aged (Suc j))"
    using alive
    by (subst sweep_keep) (simp_all add: update_ambient0 life_ambient0 sweep_replicate_alive update_burst_aged)
  then show ?case using IH by (simp add: animate_particles animate_fields)
qed

lemma frame_50:
  "particles ((animate ^^ 50) burst_scene) = replicate 50 ambient0 @ replicate 7 (burst_aged 49)"
proof -
  have "(animate ^^ 50) burst_scene = animate ((animate ^^ 49) burst_scene)"
    by (simp add: numeral_eq_Suc)
  moreover have "sweep 800 600 (replicate 50 ambient0 @ replicate 15 (burst_aged 49))
          = replicate 50 ambient0 @ replicate 7 (burst_aged 49)"
    by (subst sweep_keep) (simp_all add: update_ambient0 life_ambient0 sweep_replicate_dead update_burst_aged life_burst_aged)
  ultimately show ?thesis using frames_alive[of 49] by (simp add: animate_particles)
qed


text \<open>A particle without decay and with life left is never removed by \<^verbatim>\<open>animate\<close>.\<close>

lemma animate_keeps_ambient:
  "length (filter (\<lambda>p. decay p = 0 \<and> 0 < life p) (particles (animate s))) =
   length (filter (\<lambda>p. decay p = 0 \<and> 0 < life p) (particles s))"
  by (simp add: animate_particles sweep_ambient_count)

lemma frame_dead:
  assumes "particles s = replicate 50 ambient0 @ replicate n (burst_aged 49)"
    and "canvas_width s = 800" and "canvas_height s = 600"
  shows "particles (animate s) = replicate 50 ambient0 @ replicate (n div 2) (burst_aged 49)"
proof -
  have "sweep 800 600 (replicate 50 ambient0 @ replicate n (burst_aged 49))
          = replicate 50 ambient0 @ replicate (n div 2) (burst_aged 49)"
    by (subst sweep_keep)
       (simp_all add: update_ambient0 life_ambient0 sweep_replicate_dead update_burst_aged life_burst_aged)
  then show ?thesis using assms by (simp add: animate_particles)
qed

lemma funpow_animate_canvas:
  "canvas_width ((animate ^^ n) s) = canvas_width s \<and> canvas_height ((animate ^^ n) s) = canvas_height s"
  by (induction n) (simp_all add: animate_fields)

text \<open>
  Claim C2 on the code. The claim: the life of every burst particle goes down by 0.02 on
  every frame, a particle is removed in the pass in which its life reaches 0, and so a
  burst of 15 is gone after 50 frames. In the worked scene the 15 burst particles reach
  life 0.02 together after 49 frames. On frame 50 the first is updated and spliced out
  at its index; the second moves to that index and \<^verbatim>\<open>forEach\<close> goes on to the next index, so
  the second is neither updated nor removed, and so on along the array: 7 burst
  particles are still there after frame 50, with life 0.02, one is left after frame 52,
  and only frame 53 removes the last. The 50 ambient particles stay throughout.
\<close>

theorem C2_burst_after_50_frames:
  "particles burst_scene = replicate 50 ambient0 @ replicate 15 (burst_aged 0) \<and>
   particles ((animate ^^ 50) burst_scene) = replicate 50 ambient0 @ replicate 7 (burst_aged 49) \<and>
   life (burst_aged 49) = 1 / 50 \<and>
   particles ((animate ^^ 52) burst_scene) = replicate 50 ambient0 @ replicate 1 (burst_aged 49) \<and>
   particles ((animate ^^ 53) burst_scene) = replicate 50 ambient0"
proof -
  let ?c = "\<lambda>n. (animate ^^ n) burst_scene"
  have cv: "canvas_width (?c n) = 800 \<and> canvas_height (?c n) = 600" for n
    by (simp add: funpow_animate_canvas burst_scene_canvas)
  have s50: "?c 50 = animate (?c 49)" and s51: "?c 51 = animate (?c 50)"
    and s52: "?c 52 = animate (?c 51)" and s53: "?c 53 = animate (?c 52)"
    by (simp_all add: numeral_eq_Suc)
  have p49: "particles (?c 49) = replicate 50 ambient0 @ replicate 15 (burst_aged 49)"
    using frames_alive[of 49] by simp
  have p50: "particles (?c 50) = replicate 50 ambient0 @ replicate 7 (burst_aged 49)"
    unfolding s50 using frame_dead[OF p49] cv[of 49] by simp
  have p51: "particles (?c 51) = replicate 50 ambient0 @ replicate 3 (burst_aged 49)"
    unfolding s51 using frame_dead[OF p50] cv[of 50] by simp
  have p52: "particles (?c 52) = replicate 50 ambient0 @ replicate 1 (burst_aged 49)"
    unfolding s52 using frame_dead[OF p51] cv[of 51] by simp
  have p53: "particles (?c 53) = replicate 50 ambient0"
    unfolding s53 using frame_dead[OF p52] cv[of 52] by simp
  show ?thesis using p50 p52 p53 by (simp add: burst_scene_particles life_burst_aged)
qed

section \<open>New particles\<close>

text \<open>What \<^verbatim>\<open>push_particles\<close> appends: \<open>n\<close> particles behind the old ones, each with any
  property that the constructor gives whatever has been pushed and drawn before.\<close>

lemma Particle_state: "\<exists>k. Particle x y b s = (fst (Particle x y b s), s\<lparr>rnd_used := k\<rparr>)"
  using Particle_frame[of x y b s] by (metis prod.collapse)

lemma swap_rnd_particles:
  "s\<lparr>rnd_used := k, particles := ps\<rparr> = s\<lparr>particles := ps, rnd_used := k\<rparr>"
  by (cases s) simp

lemma push_particles_new:
  assumes "\<And>ps k. P (fst (Particle x y b (s\<lparr>particles := ps, rnd_used := k\<rparr>)))"
  shows "\<exists>new. particles (push_particles n x y b s) = particles s @ new \<and> length new = n \<and>
           (\<forall>p\<in>set new. P p)"
  using assms
proof (induction n arbitrary: s)
  case 0
  then show ?case by simp
next
  case (Suc n)
  obtain k where k: "Particle x y b s = (fst (Particle x y b s), s\<lparr>rnd_used := k\<rparr>)"
    using Particle_state by blast
  let ?p = "fst (Particle x y b s)"
  let ?s = "s\<lparr>particles := particles s @ [?p], rnd_used := k\<rparr>"
  have P: "P ?p" using Suc.prems[where ps="particles s" and k="rnd_used s"] by simp
  have step: "push_particles (Suc n) x y b s = push_particles n x y b ?s"
    by (subst push_particles.simps, subst k) (simp add: swap_rnd_particles)
  have "\<exists>new. particles (push_particles n x y b ?s) = particles ?s @ new \<and> length new = n \<and>
           (\<forall>p\<in>set new. P p)"
    by (rule Suc.IH) (use Suc.prems in simp)
  then obtain new where new: "particles (push_particles n x y b ?s) = particles ?s @ new"
    "length new = n" "\<forall>p\<in>set new. P p" by blast
  have "particles (push_particles (Suc n) x y b s) = particles s @ (?p # new)"
    using step new(1) by simp
  moreover have "length (?p # new) = Suc n" using new(2) by simp
  moreover have "\<forall>q\<in>set (?p # new). P q" using new(3) P by simp
  ultimately show ?case by blast
qed

section \<open>Ambient particles\<close>

lemma scale_unit:
  "0 \<le> r \<Longrightarrow> r < 1 \<Longrightarrow> 0 < w \<Longrightarrow> 0 \<le> r * real w \<and> r * real w < real w"
  using mult_strict_right_mono[of r 1 "real w"] by simp

lemma Particle_ambient:
  assumes r: "\<forall>i. 0 \<le> rnd s i \<and> rnd s i < 1"
    and w: "0 < canvas_width s" and h: "0 < canvas_height s"
  shows "0 \<le> px (fst (Particle None None False s)) \<and>
         px (fst (Particle None None False s)) < real (canvas_width s) \<and>
         0 \<le> py (fst (Particle None None False s)) \<and>
         py (fst (Particle None None False s)) < real (canvas_height s) \<and>
         psize (fst (Particle None None False s)) = particles_size \<and>
         - (maxSpeed / 2) \<le> speedX (fst (Particle None None False s)) \<and>
         speedX (fst (Particle None None False s)) \<le> maxSpeed / 2 \<and>
         - (maxSpeed / 2) \<le> speedY (fst (Particle None None False s)) \<and>
         speedY (fst (Particle None None False s)) \<le> maxSpeed / 2 \<and>
         0.3 \<le> opacity (fst (Particle None None False s)) \<and>
         opacity (fst (Particle None None False s)) \<le> 0.8 \<and>
         life (fst (Particle None None False s)) = 1 \<and>
         decay (fst (Particle None None False s)) = 0"
proof -
  have r0: "0 \<le> rnd s i" and r1: "rnd s i < 1" for i using r by auto
  have x: "0 \<le> rnd s i * real (canvas_width s) \<and> rnd s i * real (canvas_width s) < real (canvas_width s)" for i
    using scale_unit[OF r0 r1 w] .
  have y: "0 \<le> rnd s i * real (canvas_height s) \<and> rnd s i * real (canvas_height s) < real (canvas_height s)" for i
    using scale_unit[OF r0 r1 h] .
  have v: "- (maxSpeed / 2) \<le> (rnd s i - 0.5) * maxSpeed \<and> (rnd s i - 0.5) * maxSpeed \<le> maxSpeed / 2" for i
    using r0[of i] r1[of i] by (simp add: maxSpeed_def)
  have o: "0.3 \<le> rnd s i * 0.5 + 0.3 \<and> rnd s i * 0.5 + 0.3 \<le> 0.8" for i
    using r0[of i] r1[of i] by simp
  show ?thesis
    using x y v o
    by (simp add: Particle_def or_random_def Math_random_def)
qed

text \<open>
  Claim C7: \<^verbatim>\<open>initParticles\<close> replaces the whole collection, whatever it held, by exactly
  \<^verbatim>\<open>CONFIG.particles.count\<close> = 50 new particles. When \<^verbatim>\<open>Math.random\<close> returns numbers in
  \<open>[0, 1)\<close> and the canvas has positive dimensions, each of them has
  \<open>0 \<le> x < width\<close>, \<open>0 \<le> y < height\<close>, the configured size, both speed components in
  \<open>[-maxSpeed/2, maxSpeed/2]\<close>, opacity in \<open>[0.3, 0.8]\<close>, life 1 and no decay.
\<close>

theorem C7_initParticles:
  assumes "\<forall>i. 0 \<le> rnd s i \<and> rnd s i < 1"
    and "0 < canvas_width s" and "0 < canvas_height s"
  shows "length (particles (initParticles s)) = particles_count \<and>
         particles_count = 50 \<and>
         (\<forall>p\<in>set (particles (initParticles s)).
            ambient_fresh (canvas_width s) (canvas_height s) p) \<and>
         initParticles (s\<lparr>particles := old\<rparr>) = initParticles s"
proof -
  let ?s = "s\<lparr>particles := []\<rparr>"
  have "\<exists>new. particles (push_particles particles_count None None False ?s) = particles ?s @ new \<and>
          length new = particles_count \<and>
          (\<forall>p\<in>set new. ambient_fresh (canvas_width s) (canvas_height s) p)"
  proof (rule push_particles_new)
    fix ps k
    show "ambient_fresh (canvas_width s) (canvas_height s)
            (fst (Particle None None False (?s\<lparr>particles := ps, rnd_used := k\<rparr>)))"
      using Particle_ambient[of "?s\<lparr>particles := ps, rnd_used := k\<rparr>"] assms
      by (simp add: ambient_fresh_def)
  qed
  then show ?thesis by (auto simp: initParticles_def particles_count_def)
qed

text \<open>The claim's scene: a surface of 800 by 600 pixels.\<close>

theorem C7_initParticles_witness:
  "(\<forall>i. 0 \<le> rnd (setupCanvas (page 800 600 half)) i \<and> rnd (setupCanvas (page 800 600 half)) i < 1) \<and>
   canvas_width (setupCanvas (page 800 600 half)) = 800 \<and>
   canvas_height (setupCanvas (page 800 600 half)) = 600 \<and>
   length (particles (initParticles (setupCanvas (page 800 600 half)))) = 50 \<and>
   ambient_fresh 800 600 (particles (initParticles (setupCanvas (page 800 600 half))) ! 0) \<and>
   ambient_fresh 800 600 (particles (initParticles (setupCanvas (page 800 600 half))) ! 49)"
proof -
  let ?s = "setupCanvas (page 800 600 half)"
  have pre: "\<forall>i. 0 \<le> rnd ?s i \<and> rnd ?s i < 1" "0 < canvas_width ?s" "0 < canvas_height ?s"
    and dims: "canvas_width ?s = 800" "canvas_height ?s = 600"
    by (simp_all add: setupCanvas_def page_def half_def)
  note t = C7_initParticles [OF pre, of "[]"]
  have len: "length (particles (initParticles ?s)) = 50" using t by simp
  have "particles (initParticles ?s) ! 0 \<in> set (particles (initParticles ?s))"
    and "particles (initParticles ?s) ! 49 \<in> set (particles (initParticles ?s))"
    using len by (simp_all add: nth_mem)
  then have "ambient_fresh 800 600 (particles (initParticles ?s) ! 0)"
    and "ambient_fresh 800 600 (particles (initParticles ?s) ! 49)"
    using t dims by auto
  then show ?thesis using pre(1) dims len by blast
qed

section \<open>Bursts\<close>

lemma Particle_half_burst_at_zero:
  "rnd s = half \<Longrightarrow> canvas_width s = 800 \<Longrightarrow>
   Particle (Some 0) (Some 300) True s =
     (\<lparr>px = 400, py = 300, psize = 2.5, speedX = 0, speedY = 0,
       opacity = 1, life = 1, decay = 0.02\<rparr>, s\<lparr>rnd_used := rnd_used s + 4\<rparr>)"
  by (simp add: Particle_def or_random_def Math_random_def half_def)

lemma push_half_burst_at_zero:
  "rnd s = half \<Longrightarrow> canvas_width s = 800 \<Longrightarrow>
   particles (push_particles n (Some 0) (Some 300) True s) =
     particles s @ replicate n \<lparr>px = 400, py = 300, psize = 2.5, speedX = 0, speedY = 0,
                                opacity = 1, life = 1, decay = 0.02\<rparr>"
proof (induction n arbitrary: s)
  case 0
  then show ?case by simp
next
  case (Suc n)
  then show ?case
    by (simp add: Particle_half_burst_at_zero replicate_append_same)
qed

text \<open>
  Claim C4 on the code. The claim: a burst puts its particles at the origin it is given.
  The constructor takes the origin through \<^verbatim>\<open>x || Math.random() * canvas.width\<close>, which
  also replaces an \<^verbatim>\<open>x\<close> of 0: a burst at the left edge, \<open>(0, 300)\<close>, on a canvas 800 wide
  with \<^verbatim>\<open>Math.random\<close> returning one half, puts its 15 particles at \<open>x = 400\<close>.
\<close>

theorem C4_burst_at_left_edge:
  "particles (createParticleBurst 0 300 (setupCanvas (page 800 600 half))) =
     replicate 15 \<lparr>px = 400, py = 300, psize = 2.5, speedX = 0, speedY = 0,
                   opacity = 1, life = 1, decay = 0.02\<rparr>"
  by (simp add: createParticleBurst_def particleBurstCount_def push_half_burst_at_zero
        setupCanvas_def page_def)

lemma Particle_burst:
  assumes r: "\<forall>i. 0 \<le> rnd s i \<and> rnd s i < 1" and x: "x \<noteq> 0" and y: "y \<noteq> 0"
  shows "burst_fresh x y (fst (Particle (Some x) (Some y) True s))"
proof -
  have r0: "0 \<le> rnd s i" and r1: "rnd s i < 1" for i using r by auto
  have z: "1 \<le> rnd s i * 3 + 1 \<and> rnd s i * 3 + 1 \<le> 4" for i
    using r0[of i] r1[of i] by simp
  have v: "- 1 \<le> (rnd s i - 0.5) * 2 \<and> (rnd s i - 0.5) * 2 \<le> 1" for i
    using r0[of i] r1[of i] by simp
  show ?thesis using x y z v
    by (simp add: burst_fresh_def Particle_def or_random_def Math_random_def)
qed

text \<open>
  Away from the axes \<^verbatim>\<open>createParticleBurst\<close> does what claim C4 says: it leaves the
  particles there are, and appends \<^verbatim>\<open>CONFIG.animation.particleBurstCount\<close> = 15
  particles at the origin given, with size in \<open>[1, 4]\<close>, speed components in \<open>[-1, 1]\<close>,
  opacity 1, life 1 and decay 0.02.
\<close>

lemma createParticleBurst_off_axes:
  assumes "\<forall>i. 0 \<le> rnd s i \<and> rnd s i < 1" and "x \<noteq> 0" and "y \<noteq> 0"
  shows "\<exists>new. particles (createParticleBurst x y s) = particles s @ new \<and>
           length new = 15 \<and> (\<forall>p\<in>set new. burst_fresh x y p)"
proof -
  have "\<exists>new. particles (push_particles particleBurstCount (Some x) (Some y) True s) = particles s @ new \<and>
          length new = particleBurstCount \<and> (\<forall>p\<in>set new. burst_fresh x y p)"
  proof (rule push_particles_new)
    fix ps k
    show "burst_fresh x y (fst (Particle (Some x) (Some y) True (s\<lparr>particles := ps, rnd_used := k\<rparr>)))"
      using assms by (intro Particle_burst) simp_all
  qed
  then show ?thesis by (simp add: createParticleBurst_def particleBurstCount_def)
qed

section \<open>Coordinates of an interaction\<close>

text \<open>
  Claim C6: \<^verbatim>\<open>getEventCoords\<close> returns the first touch point when the event has one,
  else the pointer's client coordinates when both are there, else the centre of the
  canvas, \<open>(width / 2, height / 2)\<close>; without an event it returns the centre too. Its
  result depends on the event and the canvas dimensions alone, and it returns
  coordinates only: it has no state to give back.
\<close>

theorem C6_getEventCoords:
  "(touches ev = Some (t # ts) \<longrightarrow>
      getEventCoords (Some ev) s = (touch_clientX t, touch_clientY t)) \<and>
   ((touches ev = None \<or> touches ev = Some []) \<and> clientX ev = Some a \<and> clientY ev = Some b \<longrightarrow>
      getEventCoords (Some ev) s = (a, b)) \<and>
   ((touches ev = None \<or> touches ev = Some []) \<and> (clientX ev = None \<or> clientY ev = None) \<longrightarrow>
      getEventCoords (Some ev) s = (real (canvas_width s) / 2, real (canvas_height s) / 2)) \<and>
   getEventCoords None s = (real (canvas_width s) / 2, real (canvas_height s) / 2) \<and>
   (canvas_width s' = canvas_width s \<and> canvas_height s' = canvas_height s \<longrightarrow>
      getEventCoords e s' = getEventCoords e s)"
proof -
  have branches:
    "(touches ev = Some (t # ts) \<longrightarrow>
        getEventCoords (Some ev) s = (touch_clientX t, touch_clientY t)) \<and>
     ((touches ev = None \<or> touches ev = Some []) \<and> clientX ev = Some a \<and> clientY ev = Some b \<longrightarrow>
        getEventCoords (Some ev) s = (a, b)) \<and>
     ((touches ev = None \<or> touches ev = Some []) \<and> (clientX ev = None \<or> clientY ev = None) \<longrightarrow>
        getEventCoords (Some ev) s = (real (canvas_width s) / 2, real (canvas_height s) / 2)) \<and>
     getEventCoords None s = (real (canvas_width s) / 2, real (canvas_height s) / 2)"
    by (auto simp: getEventCoords_def Let_def split: option.splits list.splits)
  have "getEventCoords e s' = getEventCoords e s"
    if "canvas_width s' = canvas_width s" and "canvas_height s' = canvas_height s"
    unfolding getEventCoords_def using that by simp
  with branches show ?thesis by blast
qed

theorem C6_getEventCoords_witness:
  "touches \<lparr>clientX = None, clientY = None, touches = Some []\<rparr> = Some [] \<and>
   clientX \<lparr>clientX = None, clientY = None, touches = Some []\<rparr> = None \<and>
   getEventCoords (Some \<lparr>clientX = None, clientY = None, touches = Some []\<rparr>)
     (setupCanvas (page 800 600 half)) = (400, 300) \<and>
   canvas_width (animate (setupCanvas (page 800 600 half)))
     = canvas_width (setupCanvas (page 800 600 half)) \<and>
   canvas_height (animate (setupCanvas (page 800 600 half)))
     = canvas_height (setupCanvas (page 800 600 half)) \<and>
   getEventCoords None (animate (setupCanvas (page 800 600 half)))
     = getEventCoords None (setupCanvas (page 800 600 half))"
  using C6_getEventCoords
          [where ev = "\<lparr>clientX = None, clientY = None, touches = Some []\<rparr>"
             and t = "\<lparr>touch_clientX = 0, touch_clientY = 0\<rparr>" and ts = "[]"
             and a = 0 and b = 0 and e = None
             and s = "setupCanvas (page 800 600 half)"
             and s' = "animate (setupCanvas (page 800 600 half))"]
  by (simp add: animate_fields setupCanvas_def page_def)

section \<open>Start without a host\<close>

text \<open>
  Claim C8: when \<^verbatim>\<open>window.Telegram\<close> is absent, or is there without a \<^verbatim>\<open>WebApp\<close>,
  \<^verbatim>\<open>initTelegramWebApp\<close> returns normally with the state it was given: no host method
  is called, nothing is logged, no error is raised.
\<close>

theorem C8_no_host_no_effect:
  "(Telegram s = None \<longrightarrow> initTelegramWebApp s = Inr s) \<and>
   (Telegram s = Some w \<and> WebApp w = None \<longrightarrow> initTelegramWebApp s = Inr s)"
  by (simp add: initTelegramWebApp_def)

theorem C8_no_host_no_effect_witness:
  "Telegram (page 800 600 half) = None \<and>
   initTelegramWebApp (page 800 600 half) = Inr (page 800 600 half) \<and>
   Telegram (page 800 600 half\<lparr>Telegram := Some \<lparr>WebApp = None\<rparr>\<rparr>) = Some \<lparr>WebApp = None\<rparr> \<and>
   initTelegramWebApp (page 800 600 half\<lparr>Telegram := Some \<lparr>WebApp = None\<rparr>\<rparr>)
     = Inr (page 800 600 half\<lparr>Telegram := Some \<lparr>WebApp = None\<rparr>\<rparr>)"
  using C8_no_host_no_effect [of "page 800 600 half"]
        C8_no_host_no_effect [of "page 800 600 half\<lparr>Telegram := Some \<lparr>WebApp = None\<rparr>\<rparr>"
                                 "\<lparr>WebApp = None\<rparr>"]
  by (simp add: page_def)

section \<open>What the handlers leave alone\<close>

lemma animate_more_fields:
  "currentMessageIndex (animate s) = currentMessageIndex s"
  "instruction_classes (animate s) = instruction_classes s"
  "hint_classes (animate s) = hint_classes s"
  by (rule animate_keeps, simp)+

lemma createParticleBurst_fields:
  "isRevealed (createParticleBurst x y s) = isRevealed s"
  "currentMessageIndex (createParticleBurst x y s) = currentMessageIndex s"
  "instruction_classes (createParticleBurst x y s) = instruction_classes s"
  "hint_classes (createParticleBurst x y s) = hint_classes s"
  "message_textContent (createParticleBurst x y s) = message_textContent s"
  "subtitle_textContent (createParticleBurst x y s) = subtitle_textContent s"
  "message_opacity (createParticleBurst x y s) = message_opacity s"
  "subtitle_opacity (createParticleBurst x y s) = subtitle_opacity s"
  "ripples (createParticleBurst x y s) = ripples s"
  "timers (createParticleBurst x y s) = timers s"
  by (simp_all add: createParticleBurst_def push_fields)

lemma run_callback_fields:
  "isRevealed (run_callback cb s) = isRevealed s"
  "currentMessageIndex (run_callback cb s) = currentMessageIndex s"
  "instruction_classes (run_callback cb s) = instruction_classes s"
  "hint_classes (run_callback cb s) = hint_classes s"
  by (cases cb; simp add: show_message_def createParticleBurst_fields Let_def split: prod.splits)+

lemma fold_callbacks_fields:
  "isRevealed (fold (\<lambda>(d, cb). run_callback cb) xs s) = isRevealed s \<and>
   currentMessageIndex (fold (\<lambda>(d, cb). run_callback cb) xs s) = currentMessageIndex s \<and>
   instruction_classes (fold (\<lambda>(d, cb). run_callback cb) xs s) = instruction_classes s \<and>
   hint_classes (fold (\<lambda>(d, cb). run_callback cb) xs s) = hint_classes s"
  by (induction xs arbitrary: s) (auto simp: run_callback_fields)

lemma elapse_fields:
  "isRevealed (elapse ms s) = isRevealed s"
  "currentMessageIndex (elapse ms s) = currentMessageIndex s"
  "instruction_classes (elapse ms s) = instruction_classes s"
  "hint_classes (elapse ms s) = hint_classes s"
  by (simp_all add: elapse_def Let_def fold_callbacks_fields)

lemma initParticles_fields:
  "isRevealed (initParticles s) = isRevealed s"
  "instruction_classes (initParticles s) = instruction_classes s"
  "hint_classes (initParticles s) = hint_classes s"
  by (simp_all add: initParticles_def push_fields)

lemma revealed_step_A:
  "isRevealed s \<Longrightarrow>
   isRevealed (step_A i s) \<and> instruction_classes (step_A i s) = instruction_classes s \<and>
   hint_classes (step_A i s) = hint_classes s"
  by (cases i)
     (simp_all add: handleInteraction_A_def handleKeyPress_A_def revealMessage_A_def
        createRipple_def setTimeout_def createParticleBurst_fields Let_def
        handleResize_A_def setupCanvas_A_def handleScroll_def elapse_fields
        animate_fields animate_more_fields setParticleColor_def addParticles_def push_fields
        triggerReveal_def)

lemma revealed_step_B:
  "isRevealed s \<Longrightarrow>
   isRevealed (step_B i s) \<and> instruction_classes (step_B i s) = instruction_classes s \<and>
   hint_classes (step_B i s) = hint_classes s"
  by (cases i)
     (simp_all add: handleInteraction_B_def handleKeyPress_B_def revealMessage_B_def
        cycleMessage_def pulse_active_def setTimeout_def Let_def
        handleResize_def setupCanvas_def initParticles_fields elapse_fields
        animate_fields animate_more_fields setMessage_def setParticleColor_def
        addParticles_def push_fields)

lemma revealed_step_C:
  "isRevealed s \<Longrightarrow>
   isRevealed (step_C i s) \<and> instruction_classes (step_C i s) = instruction_classes s \<and>
   hint_classes (step_C i s) = hint_classes s"
  by (cases i)
     (simp_all add: handleInteraction_C_def handleKeyPress_C_def revealMessage_C_def
        pulse_active_def setTimeout_def createParticleBurst_fields Let_def
        handleResize_def setupCanvas_def initParticles_fields elapse_fields
        animate_fields animate_more_fields setMessage_def setParticleColor_def
        addParticles_def push_fields)

lemma revealed_run:
  assumes step: "\<And>i s. isRevealed s \<Longrightarrow>
      isRevealed (step i s) \<and> instruction_classes (step i s) = instruction_classes s \<and>
      hint_classes (step i s) = hint_classes s"
  shows "isRevealed s \<Longrightarrow>
      isRevealed (run step is s) \<and> instruction_classes (run step is s) = instruction_classes s \<and>
      hint_classes (run step is s) = hint_classes s"
  unfolding run_def
proof (induction "is" arbitrary: s)
  case Nil
  then show ?case by simp
next
  case (Cons i "is")
  have "isRevealed (step i s)" "instruction_classes (step i s) = instruction_classes s"
    "hint_classes (step i s) = hint_classes s"
    using step[OF Cons.prems] by simp_all
  then show ?case using Cons.IH[of "step i s"] by simp
qed

text \<open>
  Claim C3: the flag \<^verbatim>\<open>isRevealed\<close> is never reset. From a revealed state, whatever
  inputs follow in whatever order (clicks, touches, keys, resizes, scrolls, timers
  firing, frames, utility calls), in each of the three variants the state stays
  revealed and the class lists of the instruction and of the hint are never touched
  again. Invoking \<^verbatim>\<open>revealMessage\<close> in a revealed state schedules no reveal effect: in
  the first and third variant it returns at once and changes nothing, in the second it
  is exactly \<^verbatim>\<open>cycleMessage\<close>, and the one timer it adds is the message swap.
\<close>

theorem C3_revealed_is_final:
  assumes "isRevealed s"
  shows "isRevealed (run step_A is s) \<and> isRevealed (run step_B is s) \<and>
         isRevealed (run step_C is s) \<and>
         instruction_classes (run step_A is s) = instruction_classes s \<and>
         instruction_classes (run step_B is s) = instruction_classes s \<and>
         instruction_classes (run step_C is s) = instruction_classes s \<and>
         hint_classes (run step_A is s) = hint_classes s \<and>
         hint_classes (run step_B is s) = hint_classes s \<and>
         hint_classes (run step_C is s) = hint_classes s \<and>
         revealMessage_A s = s \<and> revealMessage_C s = s \<and>
         revealMessage_B e s = cycleMessage e s \<and>
         timers (revealMessage_B e s) =
           timers s @ [(now s + 300,
                        CycleEffect (messages ! ((currentMessageIndex s + 1) mod length messages)) e)]"
proof -
  note a = revealed_run[of step_A, OF revealed_step_A assms]
  note b = revealed_run[of step_B, OF revealed_step_B assms]
  note c = revealed_run[of step_C, OF revealed_step_C assms]
  have "timers (cycleMessage e s) =
           timers s @ [(now s + 300,
                        CycleEffect (messages ! ((currentMessageIndex s + 1) mod length messages)) e)]"
    by (simp add: cycleMessage_def setTimeout_def Let_def)
  then show ?thesis using a b c assms
    by (simp add: revealMessage_A_def revealMessage_B_def revealMessage_C_def)
qed

text \<open>A revealed page of the second variant: a click, the space key, 300 milliseconds
  and a frame later it is still revealed.\<close>

theorem C3_revealed_is_final_witness:
  "isRevealed (page 800 600 half\<lparr>isRevealed := True\<rparr>) \<and>
   isRevealed (run step_B [Pointer \<lparr>clientX = Some 10, clientY = Some 20, touches = None\<rparr>,
                           KeyPress \<lparr>key = '' '', defaultPrevented = False\<rparr>,
                           Elapse 300, Frame]
                 (page 800 600 half\<lparr>isRevealed := True\<rparr>)) \<and>
   revealMessage_B None (page 800 600 half\<lparr>isRevealed := True\<rparr>)
     = cycleMessage None (page 800 600 half\<lparr>isRevealed := True\<rparr>) \<and>
   revealMessage_C (page 800 600 half\<lparr>isRevealed := True\<rparr>)
     = page 800 600 half\<lparr>isRevealed := True\<rparr>"
  using C3_revealed_is_final
          [of "page 800 600 half\<lparr>isRevealed := True\<rparr>"
              "[Pointer \<lparr>clientX = Some 10, clientY = Some 20, touches = None\<rparr>,
                KeyPress \<lparr>key = '' '', defaultPrevented = False\<rparr>, Elapse 300, Frame]"
              None]
  by simp

section \<open>Timers fire in order\<close>

lemma insort_key_before_last:
  "f x \<le> f a \<Longrightarrow> insort_key f x (ys @ [a]) = insort_key f x ys @ [a]"
  by (induction ys) auto

lemma foldr_insort_last:
  "\<forall>x\<in>set xs. f x \<le> f a \<Longrightarrow>
   foldr (insort_key f) xs [a] = foldr (insort_key f) xs [] @ [a]"
  by (induction xs) (auto simp: insort_key_before_last)

lemma sort_key_snoc:
  "\<forall>x\<in>set xs. f x \<le> f a \<Longrightarrow> sort_key f (xs @ [a]) = sort_key f xs @ [a]"
  by (simp add: sort_key_def foldr_insort_last)

text \<open>A timer set for the very span of time that then passes fires last of those due.\<close>

lemma elapse_setTimeout:
  "elapse ms (setTimeout cb ms s) = run_callback cb (elapse ms s)"
proof -
  let ?t = "now s + ms"
  let ?due = "filter (\<lambda>(d, cb). d \<le> ?t) (timers s)"
  let ?rest = "filter (\<lambda>(d, cb). \<not> d \<le> ?t) (timers s)"
  have srt: "sort_key fst (?due @ [(?t, cb)]) = sort_key fst ?due @ [(?t, cb)]"
    by (rule sort_key_snoc) auto
  have st: "(setTimeout cb ms s)\<lparr>now := ?t, timers := ?rest\<rparr> = s\<lparr>now := ?t, timers := ?rest\<rparr>"
    by (cases s) (simp add: setTimeout_def)
  have "elapse ms (setTimeout cb ms s) =
          fold (\<lambda>(d, cb). run_callback cb) (sort_key fst (?due @ [(?t, cb)]))
            ((setTimeout cb ms s)\<lparr>now := ?t, timers := ?rest\<rparr>)"
    by (simp add: elapse_def setTimeout_def Let_def)
  also have "\<dots> = run_callback cb (fold (\<lambda>(d, cb). run_callback cb) (sort_key fst ?due)
                                     (s\<lparr>now := ?t, timers := ?rest\<rparr>))"
    by (simp only: srt st fold_append fold_simps comp_apply case_prod_conv)
  also have "\<dots> = run_callback cb (elapse ms s)"
    by (simp add: elapse_def Let_def)
  finally show ?thesis .
qed

section \<open>Message cycling\<close>

lemma cycleMessage_index:
  "currentMessageIndex (cycleMessage e s) = (currentMessageIndex s + 1) mod length messages"
  by (simp add: cycleMessage_def setTimeout_def Let_def)

lemma cycleMessage_revealed: "isRevealed (cycleMessage e s) = isRevealed s"
  by (simp add: cycleMessage_def setTimeout_def Let_def)

lemma handleInteraction_B_cycles:
  "isRevealed s \<Longrightarrow>
   isRevealed (handleInteraction_B e s) \<and>
   currentMessageIndex (handleInteraction_B e s) = (currentMessageIndex s + 1) mod length messages"
  by (simp add: handleInteraction_B_def pulse_active_def setTimeout_def revealMessage_B_def
        cycleMessage_index cycleMessage_revealed)

lemma cycleMessage_shown:
  "message_textContent (elapse 300 (cycleMessage e s))
     = title (messages ! ((currentMessageIndex s + 1) mod length messages)) \<and>
   subtitle_textContent (elapse 300 (cycleMessage e s))
     = subtitle (messages ! ((currentMessageIndex s + 1) mod length messages)) \<and>
   message_opacity (elapse 300 (cycleMessage e s)) = ''1'' \<and>
   subtitle_opacity (elapse 300 (cycleMessage e s)) = ''1''"
  by (simp add: cycleMessage_def Let_def elapse_setTimeout createParticleBurst_fields
        split: prod.splits)

text \<open>
  Claim C5, as the specification states it, in its last part: once a fade-in has
  completed the text shown is that of the current index. The closure that swaps the
  text carries the message that was current when its trigger came, and nothing cancels
  it. On a revealed page showing index 0, a click, 100 milliseconds, a second click and
  200 milliseconds more: the first swap has just run and faded the text in, the page
  shows the second message, and the index already points at the third.
\<close>

theorem C5_two_quick_triggers_counterexample:
  "message_opacity
     (run step_B [Pointer \<lparr>clientX = Some 10, clientY = Some 20, touches = None\<rparr>,
                  Elapse 100,
                  Pointer \<lparr>clientX = Some 10, clientY = Some 20, touches = None\<rparr>,
                  Elapse 200]
        (page 800 600 half\<lparr>isRevealed := True\<rparr>)) = ''1'' \<and>
   message_textContent
     (run step_B [Pointer \<lparr>clientX = Some 10, clientY = Some 20, touches = None\<rparr>,
                  Elapse 100,
                  Pointer \<lparr>clientX = Some 10, clientY = Some 20, touches = None\<rparr>,
                  Elapse 200]
        (page 800 600 half\<lparr>isRevealed := True\<rparr>)) = ''Keep Exploring'' \<and>
   title (messages ! currentMessageIndex
     (run step_B [Pointer \<lparr>clientX = Some 10, clientY = Some 20, touches = None\<rparr>,
                  Elapse 100,
                  Pointer \<lparr>clientX = Some 10, clientY = Some 20, touches = None\<rparr>,
                  Elapse 200]
        (page 800 600 half\<lparr>isRevealed := True\<rparr>))) = ''Stay Curious''"
  by (simp add: run_def handleInteraction_B_def revealMessage_B_def cycleMessage_def
        pulse_active_def setTimeout_def elapse_def Let_def page_def messages_def
        getEventCoords_def createParticleBurst_fields)

text \<open>
  Claim C5, amended. The message list has three entries. \<^verbatim>\<open>cycleMessage\<close>, and so every
  reveal trigger on a revealed page, be it \<^verbatim>\<open>revealMessage\<close> itself or a click, moves the
  index to its successor modulo the length of the list; three clicks in a row on a
  revealed page at index 0 bring the index back to 0. And 300 milliseconds after a
  trigger with no input in between, whatever timers were pending before it, the title
  and subtitle shown are those of the current index, at opacity 1.
\<close>

theorem C5_cycle_is_modular:
  "length messages = 3 \<and>
   currentMessageIndex (cycleMessage e s) = (currentMessageIndex s + 1) mod length messages \<and>
   (isRevealed s \<longrightarrow>
      currentMessageIndex (revealMessage_B e s) = (currentMessageIndex s + 1) mod length messages \<and>
      currentMessageIndex (handleInteraction_B ev s)
        = (currentMessageIndex s + 1) mod length messages) \<and>
   (isRevealed s \<and> currentMessageIndex s = 0 \<longrightarrow>
      currentMessageIndex (run step_B [Pointer e1, Pointer e2, Pointer e3] s) = 0) \<and>
   message_textContent (elapse 300 (cycleMessage e s))
     = title (messages ! currentMessageIndex (elapse 300 (cycleMessage e s))) \<and>
   subtitle_textContent (elapse 300 (cycleMessage e s))
     = subtitle (messages ! currentMessageIndex (elapse 300 (cycleMessage e s))) \<and>
   message_opacity (elapse 300 (cycleMessage e s)) = ''1'' \<and>
   subtitle_opacity (elapse 300 (cycleMessage e s)) = ''1''"
proof -
  have three: "isRevealed s \<and> currentMessageIndex s = 0 \<longrightarrow>
      currentMessageIndex (run step_B [Pointer e1, Pointer e2, Pointer e3] s) = 0"
  proof
    assume a: "isRevealed s \<and> currentMessageIndex s = 0"
    let ?s1 = "handleInteraction_B e1 s"
    let ?s2 = "handleInteraction_B e2 ?s1"
    have 1: "isRevealed ?s1" "currentMessageIndex ?s1 = 1"
      using handleInteraction_B_cycles[of s e1] a by (simp_all add: messages_def)
    have 2: "isRevealed ?s2" "currentMessageIndex ?s2 = 2"
      using handleInteraction_B_cycles[of ?s1 e2] 1 by (simp_all add: messages_def)
    have "currentMessageIndex (handleInteraction_B e3 ?s2) = 0"
      using handleInteraction_B_cycles[of ?s2 e3] 2 by (simp add: messages_def)
    then show "currentMessageIndex (run step_B [Pointer e1, Pointer e2, Pointer e3] s) = 0"
      by (simp add: run_def)
  qed
  have idx: "currentMessageIndex (elapse 300 (cycleMessage e s))
               = (currentMessageIndex s + 1) mod length messages"
    by (simp add: elapse_fields cycleMessage_index)
  have len: "length messages = 3" by (simp add: messages_def)
  have rev: "isRevealed s \<longrightarrow>
      currentMessageIndex (revealMessage_B e s) = (currentMessageIndex s + 1) mod length messages \<and>
      currentMessageIndex (handleInteraction_B ev s)
        = (currentMessageIndex s + 1) mod length messages"
    by (simp add: revealMessage_B_def cycleMessage_index handleInteraction_B_cycles)
  have shown: "message_textContent (elapse 300 (cycleMessage e s))
       = title (messages ! currentMessageIndex (elapse 300 (cycleMessage e s))) \<and>
     subtitle_textContent (elapse 300 (cycleMessage e s))
       = subtitle (messages ! currentMessageIndex (elapse 300 (cycleMessage e s))) \<and>
     message_opacity (elapse 300 (cycleMessage e s)) = ''1'' \<and>
     subtitle_opacity (elapse 300 (cycleMessage e s)) = ''1''"
    using cycleMessage_shown[of e s] by (simp only: idx)
  from len cycleMessage_index[of e s] rev three shown show ?thesis by blast
qed

text \<open>Three clicks on a revealed page of the second variant showing the first message.\<close>

theorem C5_cycle_is_modular_witness:
  "isRevealed (page 800 600 half\<lparr>isRevealed := True\<rparr>) \<and>
   currentMessageIndex (page 800 600 half\<lparr>isRevealed := True\<rparr>) = 0 \<and>
   currentMessageIndex
     (handleInteraction_B \<lparr>clientX = Some 10, clientY = Some 20, touches = None\<rparr>
        (page 800 600 half\<lparr>isRevealed := True\<rparr>)) = 1 \<and>
   currentMessageIndex
     (run step_B [Pointer \<lparr>clientX = Some 10, clientY = Some 20, touches = None\<rparr>,
                  Pointer \<lparr>clientX = Some 10, clientY = Some 20, touches = None\<rparr>,
                  Pointer \<lparr>clientX = Some 10, clientY = Some 20, touches = None\<rparr>]
        (page 800 600 half\<lparr>isRevealed := True\<rparr>)) = 0"
  using C5_cycle_is_modular
          [of None "page 800 600 half\<lparr>isRevealed := True\<rparr>"
              "\<lparr>clientX = Some 10, clientY = Some 20, touches = None\<rparr>"
              "\<lparr>clientX = Some 10, clientY = Some 20, touches = None\<rparr>"
              "\<lparr>clientX = Some 10, clientY = Some 20, touches = None\<rparr>"
              "\<lparr>clientX = Some 10, clientY = Some 20, touches = None\<rparr>"]
  by (simp add: page_def)

section \<open>Clicks on the left and top edge (first variant)\<close>

lemma Particle_px: "x \<noteq> 0 \<Longrightarrow> px (fst (Particle (Some x) y b s)) = x"
  by (simp add: Particle_def or_random_def Math_random_def Let_def split: prod.splits)

lemma Particle_py: "y \<noteq> 0 \<Longrightarrow> py (fst (Particle x (Some y) b s)) = y"
  by (simp add: Particle_def or_random_def Math_random_def Let_def split: prod.splits)

lemma createRipple_fields:
  "particles (createRipple x y s) = particles s"
  "isRevealed (createRipple x y s) = isRevealed s"
  "map left (ripples (createRipple x y s)) = map left (ripples s) @ [x]"
  "map top (ripples (createRipple x y s)) = map top (ripples s) @ [y]"
  by (simp_all add: createRipple_def setTimeout_def Let_def)

lemma after_burst_A:
  "particles (if \<not> isRevealed s then pulse_active (revealMessage_A s) else s) = particles s"
  "ripples (if \<not> isRevealed s then pulse_active (revealMessage_A s) else s) = ripples s"
  by (simp_all add: pulse_active_def revealMessage_A_def reveal_first_def setTimeout_def Let_def)

lemma handleInteraction_A_unfold:
  "handleInteraction_A e s =
     (if \<not> isRevealed s
      then pulse_active (revealMessage_A
             (createParticleBurst
                (coord_or (clientX e) (touches e) touch_clientX (real (innerWidth s) / 2))
                (coord_or (clientY e) (touches e) touch_clientY (real (innerHeight s) / 2))
                (createRipple
                   (coord_or (clientX e) (touches e) touch_clientX (real (innerWidth s) / 2))
                   (coord_or (clientY e) (touches e) touch_clientY (real (innerHeight s) / 2)) s)))
      else createParticleBurst
             (coord_or (clientX e) (touches e) touch_clientX (real (innerWidth s) / 2))
             (coord_or (clientY e) (touches e) touch_clientY (real (innerHeight s) / 2))
             (createRipple
                (coord_or (clientX e) (touches e) touch_clientX (real (innerWidth s) / 2))
                (coord_or (clientY e) (touches e) touch_clientY (real (innerHeight s) / 2)) s))"
  by (simp add: handleInteraction_A_def Let_def createParticleBurst_fields createRipple_fields)

lemma handleInteraction_A_particles:
  "particles (handleInteraction_A e s) =
     particles (createParticleBurst
       (coord_or (clientX e) (touches e) touch_clientX (real (innerWidth s) / 2))
       (coord_or (clientY e) (touches e) touch_clientY (real (innerHeight s) / 2))
       (createRipple
          (coord_or (clientX e) (touches e) touch_clientX (real (innerWidth s) / 2))
          (coord_or (clientY e) (touches e) touch_clientY (real (innerHeight s) / 2)) s))"
  by (simp add: handleInteraction_A_unfold pulse_active_def revealMessage_A_def
        reveal_first_def setTimeout_def Let_def)

lemma handleInteraction_A_ripples:
  "map left (ripples (handleInteraction_A e s)) =
     map left (ripples s) @
       [coord_or (clientX e) (touches e) touch_clientX (real (innerWidth s) / 2)] \<and>
   map top (ripples (handleInteraction_A e s)) =
     map top (ripples s) @
       [coord_or (clientY e) (touches e) touch_clientY (real (innerHeight s) / 2)]"
  by (simp add: handleInteraction_A_unfold pulse_active_def revealMessage_A_def
        reveal_first_def setTimeout_def Let_def createParticleBurst_fields createRipple_fields)

lemma burst_after_ripple:
  assumes "\<And>s'. P (fst (Particle (Some x) (Some y) True s'))"
  shows "\<exists>new. particles (createParticleBurst x y (createRipple x' y' s)) = particles s @ new \<and>
           length new = 15 \<and> (\<forall>p\<in>set new. P p)"
proof -
  have "\<exists>new. particles (push_particles particleBurstCount (Some x) (Some y) True (createRipple x' y' s))
            = particles (createRipple x' y' s) @ new \<and>
          length new = particleBurstCount \<and> (\<forall>p\<in>set new. P p)"
    by (rule push_particles_new) (rule assms)
  then show ?thesis
    by (simp add: createParticleBurst_def particleBurstCount_def createRipple_fields)
qed

text \<open>
  Claim C9: in the first variant, whose \<^verbatim>\<open>handleInteraction\<close> reads the position with
  \<^verbatim>\<open>e.clientX || ...\<close>, an event without touch points whose \<^verbatim>\<open>clientX\<close> is exactly 0
  resolves that coordinate to \<^verbatim>\<open>window.innerWidth / 2\<close>: the ripple is put there, and in
  a window of positive width so are the 15 burst particles, behind the untouched old
  ones. The same holds for \<^verbatim>\<open>clientY\<close> and \<^verbatim>\<open>window.innerHeight / 2\<close>.
\<close>

theorem C9_edge_click_goes_to_centre:
  assumes "touches e = None \<or> touches e = Some []"
  shows
    "(clientX e = Some 0 \<longrightarrow>
        coord_or (clientX e) (touches e) touch_clientX (real (innerWidth s) / 2)
          = real (innerWidth s) / 2 \<and>
        map left (ripples (handleInteraction_A e s))
          = map left (ripples s) @ [real (innerWidth s) / 2] \<and>
        (0 < innerWidth s \<longrightarrow>
           (\<exists>new. particles (handleInteraction_A e s) = particles s @ new \<and> length new = 15 \<and>
                  (\<forall>p\<in>set new. px p = real (innerWidth s) / 2)))) \<and>
     (clientY e = Some 0 \<longrightarrow>
        coord_or (clientY e) (touches e) touch_clientY (real (innerHeight s) / 2)
          = real (innerHeight s) / 2 \<and>
        map top (ripples (handleInteraction_A e s))
          = map top (ripples s) @ [real (innerHeight s) / 2] \<and>
        (0 < innerHeight s \<longrightarrow>
           (\<exists>new. particles (handleInteraction_A e s) = particles s @ new \<and> length new = 15 \<and>
                  (\<forall>p\<in>set new. py p = real (innerHeight s) / 2))))"
proof -
  let ?x = "coord_or (clientX e) (touches e) touch_clientX (real (innerWidth s) / 2)"
  let ?y = "coord_or (clientY e) (touches e) touch_clientY (real (innerHeight s) / 2)"
  have x: "?x = real (innerWidth s) / 2" if "clientX e = Some 0"
    using that assms by (auto simp: coord_or_def)
  have y: "?y = real (innerHeight s) / 2" if "clientY e = Some 0"
    using that assms by (auto simp: coord_or_def)
  have px: "\<exists>new. particles (handleInteraction_A e s) = particles s @ new \<and> length new = 15 \<and>
                  (\<forall>p\<in>set new. px p = real (innerWidth s) / 2)"
    if "clientX e = Some 0" and "0 < innerWidth s"
  proof -
    have "\<exists>new. particles (createParticleBurst ?x ?y (createRipple ?x ?y s)) = particles s @ new \<and>
            length new = 15 \<and> (\<forall>p\<in>set new. px p = ?x)"
      by (rule burst_after_ripple) (use that x in \<open>simp add: Particle_px\<close>)
    then show ?thesis by (simp only: handleInteraction_A_particles x[OF that(1)])
  qed
  have py: "\<exists>new. particles (handleInteraction_A e s) = particles s @ new \<and> length new = 15 \<and>
                  (\<forall>p\<in>set new. py p = real (innerHeight s) / 2)"
    if "clientY e = Some 0" and "0 < innerHeight s"
  proof -
    have "\<exists>new. particles (createParticleBurst ?x ?y (createRipple ?x ?y s)) = particles s @ new \<and>
            length new = 15 \<and> (\<forall>p\<in>set new. py p = ?y)"
      by (rule burst_after_ripple) (use that y in \<open>simp add: Particle_py\<close>)
    then show ?thesis by (simp only: handleInteraction_A_particles y[OF that(1)])
  qed
  have rx: "map left (ripples (handleInteraction_A e s))
          = map left (ripples s) @ [real (innerWidth s) / 2]" if "clientX e = Some 0"
    using handleInteraction_A_ripples[of e s] by (simp only: x[OF that])
  have ry: "map top (ripples (handleInteraction_A e s))
          = map top (ripples s) @ [real (innerHeight s) / 2]" if "clientY e = Some 0"
    using handleInteraction_A_ripples[of e s] by (simp only: y[OF that])
  from x y px py rx ry show ?thesis by blast
qed

text \<open>A click in the top left corner of a window of 800 by 600 pixels.\<close>

theorem C9_edge_click_goes_to_centre_witness:
  "touches \<lparr>clientX = Some 0, clientY = Some 0, touches = None\<rparr> = None \<and>
   clientX \<lparr>clientX = Some 0, clientY = Some 0, touches = None\<rparr> = Some 0 \<and>
   0 < innerWidth (page 800 600 half) \<and>
   map left (ripples (handleInteraction_A \<lparr>clientX = Some 0, clientY = Some 0, touches = None\<rparr>
                        (page 800 600 half))) = [400] \<and>
   map top (ripples (handleInteraction_A \<lparr>clientX = Some 0, clientY = Some 0, touches = None\<rparr>
                       (page 800 600 half))) = [300] \<and>
   length (particles (handleInteraction_A \<lparr>clientX = Some 0, clientY = Some 0, touches = None\<rparr>
                        (page 800 600 half))) = 15 \<and>
   px (particles (handleInteraction_A \<lparr>clientX = Some 0, clientY = Some 0, touches = None\<rparr>
                    (page 800 600 half)) ! 0) = 400"
proof -
  let ?e = "\<lparr>clientX = Some 0, clientY = Some 0, touches = None\<rparr>"
  let ?s = "page 800 600 half"
  have pre: "touches ?e = None \<or> touches ?e = Some []" by simp
  note t = C9_edge_click_goes_to_centre [OF pre, of ?s]
  have w: "innerWidth ?s = 800" "innerHeight ?s = 600" "ripples ?s = []" "particles ?s = []"
    by (simp_all add: page_def)
  obtain new where new: "particles (handleInteraction_A ?e ?s) = new" "length new = 15"
      "\<forall>p\<in>set new. px p = 400"
    using t w by auto
  have "new ! 0 \<in> set new" using new(2) by (simp add: nth_mem)
  then have "px (particles (handleInteraction_A ?e ?s) ! 0) = 400" using new by simp
  moreover have "map left (ripples (handleInteraction_A ?e ?s)) = [400]"
    and "map top (ripples (handleInteraction_A ?e ?s)) = [300]"
    using t w by simp_all
  ultimately show ?thesis using new w by simp
qed

end
